theory Spec2Isabelle
  imports Complex_Main "HOL-Library.Multiset"
begin

section \<open>Data model of \<^verbatim>\<open>pySOT.strategy.GlobalStrategy\<close>\<close>

text \<open>
  The strategy object of \<^verbatim>\<open>src/pySOT/strategy.py\<close> is a record of its attributes; every
  method takes the record and returns the updated one. A point is a row of reals, a matrix
  (\<^verbatim>\<open>X\<close>, \<^verbatim>\<open>Xpend\<close>, the experimental design) is the list of its rows, \<^verbatim>\<open>np.vstack\<close>
  appends a row. Python integers are \<open>int\<close>. Floating point is idealised as \<open>real\<close>
  (no NaN, so \<^verbatim>\<open>==\<close> on rows is equality), and the shape errors numpy raises are not
  modelled: every row is taken to have the problem's dimension.

  The collaborators that live outside the file (surrogate, logger, the POAP controller)
  touch no attribute of the strategy and are left out; the Adaptive Sampler and the clock
  are arguments of \<open>propose_action\<close>.
\<close>

type_synonym point = "real list"

text \<open>\<^verbatim>\<open>maxeval\<close> and \<^verbatim>\<open>time_budget\<close> are a number or \<^verbatim>\<open>np.inf\<close>.\<close>

datatype limit = Num int | NpInf

text \<open>\<^verbatim>\<open>n >= lim\<close> for an integer and for a float on the left.\<close>

fun ge_limit :: "int \<Rightarrow> limit \<Rightarrow> bool" where
  "ge_limit n (Num m) = (m \<le> n)"
| "ge_limit n NpInf = False"

fun ge_limit_real :: "real \<Rightarrow> limit \<Rightarrow> bool" where
  "ge_limit_real t (Num m) = (real_of_int m \<le> t)"
| "ge_limit_real t NpInf = False"

text \<open>\<^verbatim>\<open>fbest\<close> is \<^verbatim>\<open>np.inf\<close> or a value; \<open>fval_le a v\<close> is \<^verbatim>\<open>a <= v\<close>.\<close>

datatype fval = Val real | PosInf

fun fval_le :: "fval \<Rightarrow> real \<Rightarrow> bool" where
  "fval_le (Val a) v = (a \<le> v)"
| "fval_le PosInf v = False"

datatype error = IndexError | TypeError | AssertionError | AttributeError

text \<open>
  A proposal is \<^verbatim>\<open>Proposal('terminate')\<close> or \<^verbatim>\<open>Proposal('eval', x)\<close> with its \<^verbatim>\<open>ev_id\<close>
  and the callback attached to it (\<^verbatim>\<open>on_initial_proposal\<close> or \<^verbatim>\<open>on_adapt_proposal\<close>).
\<close>

datatype callback = Initial | Adaptive

datatype proposal = Eval point int callback | Terminate

text \<open>
  Modelled from the spec: the evaluation record of POAP, which is not part of the
  repository. Section 3 of the specification gives its statuses as PENDING, COMPLETED,
  ABORTED; \<^verbatim>\<open>is_done\<close> holds of the two terminal ones.
\<close>

datatype status = Pending | Completed | Aborted

record eval_record =
  rec_params :: point
  rec_value :: real
  rec_status :: status
  rec_worker_numeval :: int
  rec_feasible :: bool

definition is_done :: "eval_record \<Rightarrow> bool" where
  "is_done r = (rec_status r \<noteq> Pending)"

record strategy =
  start_time :: real
  maxeval :: limit
  time_budget :: limit
  stopping_criterion :: "(real \<Rightarrow> bool) option"
  proposal_counter :: int
  terminate :: bool
  asynchronous :: bool
  batch_size :: "int option"
  phase :: int
  rejected_count :: int
  accepted_count :: int
  ev_last :: int
  ev_adjust :: int
  ev_restart :: int
  batch_queue :: "point list"
  init_pending :: int
  numeval :: int
  feval_budget :: int
  feval_pending :: int
  X :: "point list"
  fX :: "real list"
  Xpend :: "point list"
  xbest :: "point option"
  fbest :: fval
  fevals :: "eval_record list"
  sampler_calls :: "int list"

text \<open>
  \<open>sampler_calls\<close> is not an attribute of the class: it logs the \<^verbatim>\<open>npts\<close> argument of
  every \<^verbatim>\<open>adapt_sampling.make_points\<close> call, newest first, so that the counts the sampler
  is asked for can be stated.
\<close>

section \<open>Construction\<close>

text \<open>
  \<^verbatim>\<open>__init__\<close> followed by \<^verbatim>\<open>sample_initial\<close>. \<open>max_evals\<close> is a number of evaluations or,
  negative, a number of seconds; \<open>now\<close> is the clock at construction. \<open>start_sample\<close> is what the experimental
  design generated (mapped to the domain by \<^verbatim>\<open>from_unit_box\<close> and \<^verbatim>\<open>round_vars\<close>, which
  keep the shape); the assertion compares its column count with \<^verbatim>\<open>opt_prob.dim\<close>. The
  design has at least one row, as its contract says: a matrix without rows has no width
  here.
\<close>

text \<open>
  \<^verbatim>\<open>np.abs\<close> of a Python integer that fits 64 bits is a 64-bit numpy integer: the
  absolute value, except at \<open>-2^63\<close>, whose absolute value does not fit and which
  \<^verbatim>\<open>np.abs\<close> returns as it is. \<open>max_evals\<close> is taken to fit 64 bits; what numpy does
  with a larger integer is not modelled.
\<close>

definition np_abs :: "int \<Rightarrow> int" where
  "np_abs m = (if m = - (2 ^ 63) then - (2 ^ 63) else \<bar>m\<bar>)"

definition GlobalStrategy_init ::
  "real \<Rightarrow> int \<Rightarrow> nat \<Rightarrow> point list \<Rightarrow> bool \<Rightarrow> int option \<Rightarrow> (real \<Rightarrow> bool) option
    \<Rightarrow> error + strategy" where
  "GlobalStrategy_init now max_evals opt_dim start_sample asynchr bsize stop =
     (if \<not> list_all (\<lambda>r. length r = opt_dim) start_sample then Inl AssertionError
      else Inr \<lparr>
        start_time = now,
        maxeval = (if max_evals < 0 then NpInf else Num max_evals),
        time_budget = (if max_evals < 0 then Num (np_abs max_evals) else NpInf),
        stopping_criterion = stop,
        proposal_counter = 0,
        terminate = False,
        asynchronous = asynchr,
        batch_size = bsize,
        phase = 1,
        rejected_count = 0,
        accepted_count = 0,
        ev_last = 0,
        ev_adjust = 0,
        ev_restart = 0,
        batch_queue = start_sample,
        init_pending = 0,
        numeval = 0,
        feval_budget = np_abs max_evals,
        feval_pending = 0,
        X = [],
        fX = [],
        Xpend = [],
        xbest = None,
        fbest = PosInf,
        fevals = [],
        sampler_calls = [] \<rparr>)"

section \<open>Checkpointing\<close>


section \<open>Proposals\<close>

definition get_ev :: "strategy \<Rightarrow> int \<times> strategy" where
  "get_ev s = (ev_last s + 1, s\<lparr>ev_last := ev_last s + 1\<rparr>)"

text \<open>\<open>make_proposal\<close> returns the \<^verbatim>\<open>ev_id\<close> of the new proposal; the caller attaches the callback.\<close>

definition make_proposal :: "point \<Rightarrow> strategy \<Rightarrow> int \<times> strategy" where
  "make_proposal x s =
     (let s1 = s\<lparr>feval_budget := feval_budget s - 1\<rparr>;
          s2 = s1\<lparr>feval_pending := feval_pending s1 + 1\<rparr>;
          (ev, s3) = get_ev s2
      in (ev, s3\<lparr>Xpend := Xpend s3 @ [x]\<rparr>))"

text \<open>
  \<^verbatim>\<open>np.where((Xpend == x).all(axis=1))\<close> selects every row equal to \<open>x\<close>, and
  \<^verbatim>\<open>np.delete\<close> drops them all.
\<close>

definition remove_closest_pending :: "point \<Rightarrow> strategy \<Rightarrow> strategy" where
  "remove_closest_pending x s = s\<lparr>Xpend := filter (\<lambda>r. r \<noteq> x) (Xpend s)\<rparr>"

subsection \<open>Initial phase\<close>

text \<open>\<^verbatim>\<open>batch_queue.pop()\<close> takes the last element and raises on an empty list.\<close>

definition init_proposal :: "strategy \<Rightarrow> error + (proposal option \<times> strategy)" where
  "init_proposal s =
     (if batch_queue s = [] then Inl IndexError
      else
        let x = last (batch_queue s);
            s1 = s\<lparr>batch_queue := butlast (batch_queue s)\<rparr>;
            (ev, s2) = make_proposal x s1
        in Inr (Some (Eval x ev Initial), s2\<lparr>init_pending := init_pending s2 + 1\<rparr>))"

definition on_initial_accepted :: "strategy \<Rightarrow> strategy" where
  "on_initial_accepted s = s\<lparr>accepted_count := accepted_count s + 1\<rparr>"

definition on_initial_rejected :: "point \<Rightarrow> strategy \<Rightarrow> strategy" where
  "on_initial_rejected xx s =
     (let s1 = s\<lparr>rejected_count := rejected_count s + 1\<rparr>;
          s2 = s1\<lparr>feval_budget := feval_budget s1 + 1\<rparr>;
          s3 = s2\<lparr>feval_pending := feval_pending s2 - 1\<rparr>;
          s4 = s3\<lparr>init_pending := init_pending s3 - 1\<rparr>;
          s5 = s4\<lparr>batch_queue := batch_queue s4 @ [xx]\<rparr>;
          s6 = s5\<lparr>Xpend := Xpend s5 @ [xx]\<rparr>
      in remove_closest_pending xx s6)"

text \<open>The callback of an initial proposal: \<open>accepted\<close> and \<open>xx\<close> are \<^verbatim>\<open>proposal.accepted\<close> and \<^verbatim>\<open>proposal.args[0]\<close>.\<close>

definition on_initial_proposal :: "bool \<Rightarrow> point \<Rightarrow> strategy \<Rightarrow> strategy" where
  "on_initial_proposal accepted xx s =
     (if accepted then on_initial_accepted s else on_initial_rejected xx s)"

definition check_stopping :: "real \<Rightarrow> strategy \<Rightarrow> strategy" where
  "check_stopping v s =
     (case stopping_criterion s of
        None \<Rightarrow> s
      | Some crit \<Rightarrow> if crit v then s\<lparr>terminate := True\<rparr> else s)"

definition on_initial_completed :: "eval_record \<Rightarrow> strategy \<Rightarrow> strategy" where
  "on_initial_completed r s =
     (let s1 = check_stopping (rec_value r) s;
          s2 = s1\<lparr>numeval := numeval s1 + 1\<rparr>;
          s3 = s2\<lparr>feval_pending := feval_pending s2 - 1\<rparr>;
          s4 = s3\<lparr>init_pending := init_pending s3 - 1\<rparr>;
          r' = r\<lparr>rec_worker_numeval := numeval s4, rec_feasible := True\<rparr>;
          xx = rec_params r;
          fx = rec_value r;
          s5 = s4\<lparr>X := X s4 @ [xx]\<rparr>;
          s6 = s5\<lparr>fX := fX s5 @ [fx]\<rparr>;
          s7 = remove_closest_pending xx s6
      in s7\<lparr>fevals := fevals s7 @ [r']\<rparr>)"

definition on_initial_aborted :: "eval_record \<Rightarrow> strategy \<Rightarrow> strategy" where
  "on_initial_aborted r s =
     (let s1 = s\<lparr>feval_budget := feval_budget s + 1\<rparr>;
          s2 = s1\<lparr>feval_pending := feval_pending s1 - 1\<rparr>;
          s3 = s2\<lparr>init_pending := init_pending s2 - 1\<rparr>;
          xx = rec_params r;
          s4 = s3\<lparr>batch_queue := batch_queue s3 @ [xx]\<rparr>
      in remove_closest_pending xx s4)"

definition on_initial_update :: "eval_record \<Rightarrow> strategy \<Rightarrow> strategy" where
  "on_initial_update r s =
     (if rec_status r = Completed then on_initial_completed r s
      else if is_done r then on_initial_aborted r s
      else s)"

subsection \<open>Adaptive phase\<close>

text \<open>
  \<open>make_points\<close> is the Adaptive Sampler at this call, as a function of \<^verbatim>\<open>npts\<close> (its
  other arguments are fixed by the state); it returns the rows of a matrix.
  \<^verbatim>\<open>np.ravel\<close> lays the rows end to end, so a one-row answer is that row.
\<close>

definition adapt_proposal_async ::
  "(int \<Rightarrow> point list) \<Rightarrow> strategy \<Rightarrow> error + (proposal option \<times> strategy)" where
  "adapt_proposal_async make_points s =
     (let s1 = s\<lparr>proposal_counter := proposal_counter s + 1\<rparr>;
          s2 = s1\<lparr>sampler_calls := 1 # sampler_calls s1\<rparr>;
          x = concat (make_points 1);
          (ev, s3) = make_proposal x s2
      in Inr (Some (Eval x ev Adaptive), s3))"

definition adapt_proposal_sync :: "strategy \<Rightarrow> error + (proposal option \<times> strategy)" where
  "adapt_proposal_sync s =
     (let s1 = s\<lparr>proposal_counter := proposal_counter s + 1\<rparr>
      in if batch_queue s1 = [] then Inl IndexError
         else
           let x = last (batch_queue s1);
               s2 = s1\<lparr>batch_queue := butlast (batch_queue s1)\<rparr>;
               (ev, s3) = make_proposal x s2
           in Inr (Some (Eval x ev Adaptive), s3))"

text \<open>
  \<^verbatim>\<open>min(self.batch_size, self.maxeval - self.numeval)\<close>: with \<^verbatim>\<open>maxeval = np.inf\<close> the
  minimum is the batch size.
\<close>

definition nsamples_of :: "int \<Rightarrow> strategy \<Rightarrow> int" where
  "nsamples_of b s = (case maxeval s of NpInf \<Rightarrow> b | Num m \<Rightarrow> min b (m - numeval s))"

text \<open>
  \<^verbatim>\<open>min\<close> raises a TypeError on the default \<^verbatim>\<open>batch_size = None\<close>. The loop reads rows
  \<open>0 .. nsamples - 1\<close> of the sampler's answer and raises an IndexError when the answer
  is shorter; a count below one leaves the queue as it is.
\<close>

definition make_batch :: "(int \<Rightarrow> point list) \<Rightarrow> strategy \<Rightarrow> error + strategy" where
  "make_batch make_points s =
     (case batch_size s of
        None \<Rightarrow> Inl TypeError
      | Some b \<Rightarrow>
          let nsamples = nsamples_of b s;
              s1 = s\<lparr>sampler_calls := nsamples # sampler_calls s\<rparr>;
              new_points = make_points nsamples
          in if int (length new_points) < nsamples then Inl IndexError
             else Inr (s1\<lparr>batch_queue := batch_queue s1 @ take (nat nsamples) new_points\<rparr>))"

definition on_adapt_accept :: "strategy \<Rightarrow> strategy" where
  "on_adapt_accept s = s\<lparr>accepted_count := accepted_count s + 1\<rparr>"

text \<open>
  The proposal is POAP's \<^verbatim>\<open>Proposal\<close>, built as \<^verbatim>\<open>Proposal('eval', x)\<close> in
  \<^verbatim>\<open>make_proposal\<close>: it keeps the point in its attribute \<^verbatim>\<open>args\<close>, which is what
  \<^verbatim>\<open>on_initial_rejected\<close> reads, and it has no attribute \<^verbatim>\<open>params\<close> (records have one).
  \<^verbatim>\<open>on_adapt_reject\<close> moves its three counters and then reads \<^verbatim>\<open>proposal.params[0]\<close>,
  which raises an AttributeError: the call to \<^verbatim>\<open>remove_closest_pending\<close> after it is
  never reached. The result is the exception and the state the handler leaves behind;
  \<open>xx\<close> is the point of the proposal, which the handler does not get to.
\<close>

definition on_adapt_reject :: "point \<Rightarrow> strategy \<Rightarrow> error \<times> strategy" where
  "on_adapt_reject xx s =
     (let s1 = s\<lparr>rejected_count := rejected_count s + 1\<rparr>;
          s2 = s1\<lparr>feval_budget := feval_budget s1 + 1\<rparr>;
          s3 = s2\<lparr>feval_pending := feval_pending s2 - 1\<rparr>
      in (AttributeError, s3))"

text \<open>
  The callback of an adaptive proposal returns the new state (\<open>Inr\<close>) or raises (\<open>Inl\<close>,
  the exception with the state left behind).
\<close>

definition on_adapt_proposal ::
  "bool \<Rightarrow> point \<Rightarrow> strategy \<Rightarrow> (error \<times> strategy) + strategy" where
  "on_adapt_proposal accepted xx s =
     (if accepted then Inr (on_adapt_accept s) else Inl (on_adapt_reject xx s))"

definition on_adapt_completed :: "eval_record \<Rightarrow> strategy \<Rightarrow> strategy" where
  "on_adapt_completed r s =
     (let s1 = check_stopping (rec_value r) s;
          s2 = s1\<lparr>numeval := numeval s1 + 1\<rparr>;
          s3 = s2\<lparr>feval_pending := feval_pending s2 - 1\<rparr>;
          r' = r\<lparr>rec_worker_numeval := numeval s3, rec_feasible := True\<rparr>;
          xx = rec_params r;
          fx = rec_value r;
          s4 = s3\<lparr>X := X s3 @ [xx]\<rparr>;
          s5 = s4\<lparr>fX := fX s4 @ [fx]\<rparr>;
          s6 = remove_closest_pending xx s5
      in s6\<lparr>fevals := fevals s6 @ [r']\<rparr>)"

definition on_adapt_aborted :: "eval_record \<Rightarrow> strategy \<Rightarrow> strategy" where
  "on_adapt_aborted r s =
     (let s1 = s\<lparr>feval_budget := feval_budget s + 1\<rparr>;
          s2 = s1\<lparr>feval_pending := feval_pending s1 - 1\<rparr>;
          xx = rec_params r
      in remove_closest_pending xx s2)"

definition on_adapt_update :: "eval_record \<Rightarrow> strategy \<Rightarrow> strategy" where
  "on_adapt_update r s =
     (if rec_status r = Completed then on_adapt_completed r s
      else if is_done r then on_adapt_aborted r s
      else s)"

subsection \<open>The next action\<close>

definition stopping :: "real \<Rightarrow> strategy \<Rightarrow> bool" where
  "stopping current_time s =
     (ge_limit (numeval s) (maxeval s) \<or> terminate s \<or>
      ge_limit_real (current_time - start_time s) (time_budget s))"

text \<open>The result \<open>None\<close> is the \<^verbatim>\<open>None\<close> a Python function returns when it falls off its end.\<close>

definition propose_action ::
  "real \<Rightarrow> (int \<Rightarrow> point list) \<Rightarrow> strategy \<Rightarrow> error + (proposal option \<times> strategy)" where
  "propose_action current_time make_points s =
     (if stopping current_time s then
        (if feval_pending s = 0 then Inr (Some Terminate, s) else Inr (None, s))
      else if asynchronous s then
        (if batch_queue s \<noteq> [] then init_proposal s
         else adapt_proposal_async make_points s)
      else
        (if batch_queue s \<noteq> [] then
           (if phase s = 1 then init_proposal s else adapt_proposal_sync s)
         else if feval_pending s = 0 then
           (case make_batch make_points (s\<lparr>phase := 2\<rparr>) of
              Inl e \<Rightarrow> Inl e
            | Inr s1 \<Rightarrow> adapt_proposal_sync s1)
         else Inr (None, s)))"

section \<open>Runs of the strategy\<close>

text \<open>
  The controller drives the strategy through five entry points: \<^verbatim>\<open>propose_action\<close>, the
  two proposal callbacks (accept or reject) and the two record callbacks (completion,
  abort, or an update that is neither). A \<open>call\<close> is one such entry with its arguments.
\<close>

datatype call =
    Propose_action real "int \<Rightarrow> point list"
  | On_initial_proposal bool point
  | On_adapt_proposal bool point
  | On_initial_update eval_record
  | On_adapt_update eval_record

fun dispatch :: "call \<Rightarrow> strategy \<Rightarrow> error + (proposal option \<times> strategy)" where
  "dispatch (Propose_action current_time make_points) s = propose_action current_time make_points s"
| "dispatch (On_initial_proposal accepted xx) s = Inr (None, on_initial_proposal accepted xx s)"
| "dispatch (On_adapt_proposal accepted xx) s =
     (case on_adapt_proposal accepted xx s of
        Inl (e, s') \<Rightarrow> Inl e
      | Inr s' \<Rightarrow> Inr (None, s'))"
| "dispatch (On_initial_update r) s = Inr (None, on_initial_update r s)"
| "dispatch (On_adapt_update r) s = Inr (None, on_adapt_update r s)"

text \<open>
  A run is a sequence of calls, each of which returns; an exception ends it, and the
  state it leaves behind is not a state of the run.
\<close>

fun run_calls :: "call list \<Rightarrow> strategy \<Rightarrow> error + strategy" where
  "run_calls [] s = Inr s"
| "run_calls (c # cs) s =
     (case dispatch c s of Inl e \<Rightarrow> Inl e | Inr (a, s') \<Rightarrow> run_calls cs s')"

text \<open>The evaluations still to assign, completed and under way.\<close>

definition budget_total :: "strategy \<Rightarrow> int" where
  "budget_total s = feval_budget s + numeval s + feval_pending s"

section \<open>The worker pool\<close>

text \<open>
  Modelled from the spec: the dispatch loop of the worker pool (POAP's controller, which
  is not part of the repository), as section 6 of the specification describes it. It
  asks for the next action; an EVAL proposal gets exactly one accept or reject; an
  accepted proposal becomes a record, which gets updates until one of them is terminal.
  Each notification carries the point that was proposed and goes to the callback that
  was attached to the proposal.

  A \<open>flight\<close> is a proposal or record under way: its \<^verbatim>\<open>ev_id\<close>, its point and its callback.
\<close>

type_synonym flight = "int \<times> point \<times> callback"

record system =
  strat :: strategy
  proposed :: "flight list"
  running :: "flight list"

datatype event =
    Ask real "int \<Rightarrow> point list"
  | Accept int
  | Reject int
  | Update int status real

fun proposal_callback ::
  "callback \<Rightarrow> bool \<Rightarrow> point \<Rightarrow> strategy \<Rightarrow> (error \<times> strategy) + strategy" where
  "proposal_callback Initial accepted xx s = Inr (on_initial_proposal accepted xx s)"
| "proposal_callback Adaptive accepted xx s = on_adapt_proposal accepted xx s"

text \<open>\<^verbatim>\<open>on_initial_accepted\<close> registers \<^verbatim>\<open>on_initial_update\<close> on the record, \<^verbatim>\<open>on_adapt_accept\<close> registers \<^verbatim>\<open>on_adapt_update\<close>.\<close>

fun record_callback :: "callback \<Rightarrow> eval_record \<Rightarrow> strategy \<Rightarrow> strategy" where
  "record_callback Initial = on_initial_update"
| "record_callback Adaptive = on_adapt_update"

definition new_flights :: "proposal option \<Rightarrow> flight list" where
  "new_flights a = (case a of Some (Eval x ev cb) \<Rightarrow> [(ev, x, cb)] | _ \<Rightarrow> [])"

definition record_of :: "point \<Rightarrow> status \<Rightarrow> real \<Rightarrow> eval_record" where
  "record_of x st v =
     \<lparr>rec_params = x, rec_value = v, rec_status = st, rec_worker_numeval = 0,
      rec_feasible = False\<rparr>"

text \<open>
  One event of the dispatch loop. The result is \<open>None\<close> when the strategy raises, which
  ends the run (so it is at the rejection of an adaptive proposal), and when the event
  names no proposal (or record) under way, which the worker pool never does.
\<close>

fun step :: "event \<Rightarrow> system \<Rightarrow> system option" where
  "step (Ask current_time make_points) sys =
     (case propose_action current_time make_points (strat sys) of
        Inl e \<Rightarrow> None
      | Inr (a, s') \<Rightarrow> Some (sys\<lparr>strat := s', proposed := proposed sys @ new_flights a\<rparr>))"
| "step (Accept ev) sys =
     (case find (\<lambda>f. fst f = ev) (proposed sys) of
        None \<Rightarrow> None
      | Some (e, x, cb) \<Rightarrow>
          (case proposal_callback cb True x (strat sys) of
             Inl err \<Rightarrow> None
           | Inr s' \<Rightarrow>
               Some (sys\<lparr>strat := s',
                         proposed := remove1 (e, x, cb) (proposed sys),
                         running := running sys @ [(e, x, cb)]\<rparr>)))"
| "step (Reject ev) sys =
     (case find (\<lambda>f. fst f = ev) (proposed sys) of
        None \<Rightarrow> None
      | Some (e, x, cb) \<Rightarrow>
          (case proposal_callback cb False x (strat sys) of
             Inl err \<Rightarrow> None
           | Inr s' \<Rightarrow>
               Some (sys\<lparr>strat := s', proposed := remove1 (e, x, cb) (proposed sys)\<rparr>)))"
| "step (Update ev st v) sys =
     (case find (\<lambda>f. fst f = ev) (running sys) of
        None \<Rightarrow> None
      | Some (e, x, cb) \<Rightarrow>
          Some (sys\<lparr>strat := record_callback cb (record_of x st v) (strat sys),
                    running := (if st = Pending then running sys
                                else remove1 (e, x, cb) (running sys))\<rparr>))"

fun run :: "event list \<Rightarrow> system \<Rightarrow> system option" where
  "run [] sys = Some sys"
| "run (e # es) sys = (case step e sys of None \<Rightarrow> None | Some sys' \<Rightarrow> run es sys')"

definition system_of :: "strategy \<Rightarrow> system" where
  "system_of s = \<lparr>strat = s, proposed = [], running = []\<rparr>"

text \<open>A sampler that answers every request with the same rows.\<close>

definition returns_rows :: "point list \<Rightarrow> int \<Rightarrow> point list" where
  "returns_rows rows npts = rows"

text \<open>The points of the proposals and records under way.\<close>

definition in_flight :: "system \<Rightarrow> point list" where
  "in_flight sys = map (\<lambda>f. fst (snd f)) (proposed sys @ running sys)"

text \<open>
  \<open>clash_free es sys\<close>: along the run of \<open>es\<close> from \<open>sys\<close>, no two proposals or records
  under way at the same moment carry equal points.
\<close>

fun clash_free :: "event list \<Rightarrow> system \<Rightarrow> bool" where
  "clash_free [] sys = distinct (in_flight sys)"
| "clash_free (e # es) sys =
     (distinct (in_flight sys) \<and>
      (case step e sys of None \<Rightarrow> True | Some sys' \<Rightarrow> clash_free es sys'))"

text \<open>
  The bookkeeping of the pending set against the flights: the counter is the number of
  flights and every pending row belongs to a flight (\<open>tracked\<close>); the rows are the
  flights' points, one each (\<open>exact\<close>).
\<close>

definition tracked :: "system \<Rightarrow> bool" where
  "tracked sys =
     (feval_pending (strat sys) = int (length (in_flight sys)) \<and>
      mset (Xpend (strat sys)) \<subseteq># mset (in_flight sys))"

definition exact :: "system \<Rightarrow> bool" where
  "exact sys = (mset (Xpend (strat sys)) = mset (in_flight sys))"

text \<open>The completed points, their values and the counter of completed evaluations agree.\<close>

definition completed_ok :: "strategy \<Rightarrow> bool" where
  "completed_ok s = (length (X s) = length (fX s) \<and> int (length (X s)) = numeval s)"

text \<open>
  The phase against the flights: the phase is 1 or 2, it is 1 in asynchronous mode, and
  in synchronous mode while it is 1 every flight is an initial one and the two pending
  counters agree.
\<close>

definition phase_ok :: "system \<Rightarrow> bool" where
  "phase_ok sys =
     ((phase (strat sys) = 1 \<or> phase (strat sys) = 2) \<and>
      (asynchronous (strat sys) \<longrightarrow> phase (strat sys) = 1) \<and>
      (\<not> asynchronous (strat sys) \<and> phase (strat sys) = 1 \<longrightarrow>
         list_all (\<lambda>f. snd (snd f) = Initial) (proposed sys @ running sys) \<and>
         init_pending (strat sys) = feval_pending (strat sys)))"

section \<open>The effect of each method, in one update\<close>

lemma check_stopping_fields [simp]:
  "feval_budget (check_stopping v s) = feval_budget s"
  "numeval (check_stopping v s) = numeval s"
  "feval_pending (check_stopping v s) = feval_pending s"
  "init_pending (check_stopping v s) = init_pending s"
  "X (check_stopping v s) = X s"
  "fX (check_stopping v s) = fX s"
  "Xpend (check_stopping v s) = Xpend s"
  "batch_queue (check_stopping v s) = batch_queue s"
  "phase (check_stopping v s) = phase s"
  "asynchronous (check_stopping v s) = asynchronous s"
  "xbest (check_stopping v s) = xbest s"
  "fbest (check_stopping v s) = fbest s"
  "fevals (check_stopping v s) = fevals s"
  "sampler_calls (check_stopping v s) = sampler_calls s"
  by (simp_all add: check_stopping_def split: option.splits)

lemma make_proposal_eq:
  "make_proposal x s =
     (ev_last s + 1,
      s\<lparr>feval_budget := feval_budget s - 1, feval_pending := feval_pending s + 1,
        ev_last := ev_last s + 1, Xpend := Xpend s @ [x]\<rparr>)"
  by (simp add: make_proposal_def get_ev_def)

lemma init_proposal_eq:
  "batch_queue s \<noteq> [] \<Longrightarrow> init_proposal s =
     Inr (Some (Eval (last (batch_queue s)) (ev_last s + 1) Initial),
       s\<lparr>batch_queue := butlast (batch_queue s),
         feval_budget := feval_budget s - 1, feval_pending := feval_pending s + 1,
         ev_last := ev_last s + 1, Xpend := Xpend s @ [last (batch_queue s)],
         init_pending := init_pending s + 1\<rparr>)"
  by (simp add: init_proposal_def make_proposal_eq Let_def)

lemma adapt_proposal_async_eq:
  "adapt_proposal_async mk s =
     Inr (Some (Eval (concat (mk 1)) (ev_last s + 1) Adaptive),
       s\<lparr>proposal_counter := proposal_counter s + 1,
         sampler_calls := 1 # sampler_calls s,
         feval_budget := feval_budget s - 1, feval_pending := feval_pending s + 1,
         ev_last := ev_last s + 1, Xpend := Xpend s @ [concat (mk 1)]\<rparr>)"
  by (simp add: adapt_proposal_async_def make_proposal_eq Let_def)

lemma adapt_proposal_sync_eq:
  "batch_queue s \<noteq> [] \<Longrightarrow> adapt_proposal_sync s =
     Inr (Some (Eval (last (batch_queue s)) (ev_last s + 1) Adaptive),
       s\<lparr>proposal_counter := proposal_counter s + 1,
         batch_queue := butlast (batch_queue s),
         feval_budget := feval_budget s - 1, feval_pending := feval_pending s + 1,
         ev_last := ev_last s + 1, Xpend := Xpend s @ [last (batch_queue s)]\<rparr>)"
  by (simp add: adapt_proposal_sync_def make_proposal_eq Let_def)

lemma on_initial_rejected_eq:
  "on_initial_rejected xx s =
     s\<lparr>rejected_count := rejected_count s + 1, feval_budget := feval_budget s + 1,
       feval_pending := feval_pending s - 1, init_pending := init_pending s - 1,
       batch_queue := batch_queue s @ [xx],
       Xpend := filter (\<lambda>r. r \<noteq> xx) (Xpend s)\<rparr>"
  by (simp add: on_initial_rejected_def remove_closest_pending_def)

lemma on_initial_completed_eq:
  "on_initial_completed r s =
     (check_stopping (rec_value r) s)
      \<lparr>numeval := numeval s + 1, feval_pending := feval_pending s - 1,
       init_pending := init_pending s - 1,
       X := X s @ [rec_params r], fX := fX s @ [rec_value r],
       Xpend := filter (\<lambda>x. x \<noteq> rec_params r) (Xpend s),
       fevals := fevals s @
         [r\<lparr>rec_worker_numeval := numeval s + 1, rec_feasible := True\<rparr>]\<rparr>"
  by (simp add: on_initial_completed_def remove_closest_pending_def Let_def)

lemma on_initial_aborted_eq:
  "on_initial_aborted r s =
     s\<lparr>feval_budget := feval_budget s + 1, feval_pending := feval_pending s - 1,
       init_pending := init_pending s - 1,
       batch_queue := batch_queue s @ [rec_params r],
       Xpend := filter (\<lambda>x. x \<noteq> rec_params r) (Xpend s)\<rparr>"
  by (simp add: on_initial_aborted_def remove_closest_pending_def Let_def)

lemma on_adapt_reject_eq:
  "on_adapt_reject xx s =
     (AttributeError,
      s\<lparr>rejected_count := rejected_count s + 1, feval_budget := feval_budget s + 1,
        feval_pending := feval_pending s - 1\<rparr>)"
  by (simp add: on_adapt_reject_def)

lemma on_adapt_completed_eq:
  "on_adapt_completed r s =
     (check_stopping (rec_value r) s)
      \<lparr>numeval := numeval s + 1, feval_pending := feval_pending s - 1,
       X := X s @ [rec_params r], fX := fX s @ [rec_value r],
       Xpend := filter (\<lambda>x. x \<noteq> rec_params r) (Xpend s),
       fevals := fevals s @
         [r\<lparr>rec_worker_numeval := numeval s + 1, rec_feasible := True\<rparr>]\<rparr>"
  by (simp add: on_adapt_completed_def remove_closest_pending_def Let_def)

lemma on_adapt_aborted_eq:
  "on_adapt_aborted r s =
     s\<lparr>feval_budget := feval_budget s + 1, feval_pending := feval_pending s - 1,
       Xpend := filter (\<lambda>x. x \<noteq> rec_params r) (Xpend s)\<rparr>"
  by (simp add: on_adapt_aborted_def remove_closest_pending_def Let_def)

lemmas handler_eqs =
  on_initial_proposal_def on_initial_accepted_def on_initial_rejected_eq
  on_adapt_proposal_def on_adapt_accept_def on_adapt_reject_eq
  on_initial_update_def on_initial_completed_eq on_initial_aborted_eq
  on_adapt_update_def on_adapt_completed_eq on_adapt_aborted_eq
  check_stopping_def is_done_def

lemmas propose_eqs =
  propose_action_def stopping_def init_proposal_eq adapt_proposal_async_eq
  adapt_proposal_sync_eq make_batch_def nsamples_of_def

lemmas step_eqs = system_of_def in_flight_def new_flights_def record_of_def returns_rows_def
  np_abs_def

lemma propose_action_cases [consumes 1, case_names terminate wait async_init async_adapt
    sync_init sync_adapt sync_batch sync_wait]:
  assumes "propose_action t mk s = Inr (a, s')"
  obtains
    "stopping t s" "feval_pending s = 0" "a = Some Terminate" "s' = s"
  | "stopping t s" "feval_pending s \<noteq> 0" "a = None" "s' = s"
  | "\<not> stopping t s" "asynchronous s" "batch_queue s \<noteq> []" "init_proposal s = Inr (a, s')"
  | "\<not> stopping t s" "asynchronous s" "batch_queue s = []"
      "adapt_proposal_async mk s = Inr (a, s')"
  | "\<not> stopping t s" "\<not> asynchronous s" "batch_queue s \<noteq> []" "phase s = 1"
      "init_proposal s = Inr (a, s')"
  | "\<not> stopping t s" "\<not> asynchronous s" "batch_queue s \<noteq> []" "phase s \<noteq> 1"
      "adapt_proposal_sync s = Inr (a, s')"
  | s1 where "\<not> stopping t s" "\<not> asynchronous s" "batch_queue s = []" "feval_pending s = 0"
      "make_batch mk (s\<lparr>phase := 2\<rparr>) = Inr s1" "adapt_proposal_sync s1 = Inr (a, s')"
  | "\<not> stopping t s" "\<not> asynchronous s" "batch_queue s = []" "feval_pending s \<noteq> 0"
      "a = None" "s' = s"
  using assms unfolding propose_action_def
  by (auto split: if_splits sum.splits)

lemma make_batch_eq:
  assumes "make_batch mk s = Inr s1"
  obtains b where "batch_size s = Some b"
    "int (length (mk (nsamples_of b s))) \<ge> nsamples_of b s"
    "s1 = s\<lparr>sampler_calls := nsamples_of b s # sampler_calls s,
            batch_queue := batch_queue s @ take (nat (nsamples_of b s)) (mk (nsamples_of b s))\<rparr>"
  using assms unfolding make_batch_def
  by (auto simp: Let_def split: option.splits if_splits)

lemma adapt_proposal_sync_cases:
  assumes "adapt_proposal_sync s = Inr (a, s')"
  shows "batch_queue s \<noteq> []"
    and "a = Some (Eval (last (batch_queue s)) (ev_last s + 1) Adaptive)"
    and "s' = s\<lparr>proposal_counter := proposal_counter s + 1,
         batch_queue := butlast (batch_queue s),
         feval_budget := feval_budget s - 1, feval_pending := feval_pending s + 1,
         ev_last := ev_last s + 1, Xpend := Xpend s @ [last (batch_queue s)]\<rparr>"
  using assms
  by (auto simp: adapt_proposal_sync_def make_proposal_eq Let_def split: if_splits)

section \<open>Budget conservation\<close>

lemma make_proposal_total:
  "make_proposal x s = (ev, s') \<Longrightarrow> budget_total s' = budget_total s"
  by (auto simp: make_proposal_def get_ev_def budget_total_def Let_def)

lemma init_proposal_total:
  "init_proposal s = Inr (a, s') \<Longrightarrow> budget_total s' = budget_total s"
  by (auto simp: init_proposal_def make_proposal_def get_ev_def budget_total_def Let_def
      split: if_splits)

lemma adapt_proposal_async_total:
  "adapt_proposal_async mk s = Inr (a, s') \<Longrightarrow> budget_total s' = budget_total s"
  by (auto simp: adapt_proposal_async_def make_proposal_def get_ev_def budget_total_def Let_def)

lemma adapt_proposal_sync_total:
  "adapt_proposal_sync s = Inr (a, s') \<Longrightarrow> budget_total s' = budget_total s"
  by (auto simp: adapt_proposal_sync_def make_proposal_def get_ev_def budget_total_def Let_def
      split: if_splits)

lemma make_batch_total:
  "make_batch mk s = Inr s' \<Longrightarrow> budget_total s' = budget_total s"
  by (auto simp: make_batch_def budget_total_def Let_def split: option.splits if_splits)

lemma propose_action_total:
  assumes "propose_action t mk s = Inr (a, s')"
  shows "budget_total s' = budget_total s"
proof (cases "stopping t s")
  case True
  with assms show ?thesis
    by (auto simp: propose_action_def split: if_splits)
next
  case False
  have ph: "budget_total (s\<lparr>phase := 2\<rparr>) = budget_total s"
    by (simp add: budget_total_def)
  have batch: "budget_total s' = budget_total s"
    if "make_batch mk (s\<lparr>phase := 2\<rparr>) = Inr s1" "adapt_proposal_sync s1 = Inr (a, s')" for s1
    using make_batch_total [OF that(1)] adapt_proposal_sync_total [OF that(2)] ph by simp
  from False assms show ?thesis
    by (auto simp: propose_action_def split: if_splits sum.splits
        intro: init_proposal_total adapt_proposal_async_total adapt_proposal_sync_total batch)
qed

lemma on_adapt_proposal_returns:
  "on_adapt_proposal acc xx s = Inr s' \<longleftrightarrow> acc \<and> s' = on_adapt_accept s"
  by (auto simp: on_adapt_proposal_def)

text \<open>A proposal callback that returns has accepted, or has rejected an initial proposal.\<close>

lemma proposal_callback_returns:
  assumes "proposal_callback cb acc x s = Inr s'"
  shows "(acc \<and> s' = s\<lparr>accepted_count := accepted_count s + 1\<rparr>) \<or>
         (\<not> acc \<and> cb = Initial \<and> s' = on_initial_rejected x s)"
  using assms
  by (cases cb)
    (auto simp: on_initial_proposal_def on_initial_accepted_def on_adapt_proposal_def
      on_adapt_accept_def split: if_splits)

lemma handlers_total:
  "budget_total (on_initial_proposal acc xx s) = budget_total s"
  "budget_total (on_adapt_accept s) = budget_total s"
  "budget_total (on_initial_update r s) = budget_total s"
  "budget_total (on_adapt_update r s) = budget_total s"
  by (simp_all add: on_initial_proposal_def on_initial_accepted_def on_initial_rejected_def
      on_adapt_accept_def
      on_initial_update_def on_initial_completed_def on_initial_aborted_def
      on_adapt_update_def on_adapt_completed_def on_adapt_aborted_def
      remove_closest_pending_def budget_total_def Let_def)

lemma dispatch_total:
  "dispatch c s = Inr (a, s') \<Longrightarrow> budget_total s' = budget_total s"
  by (cases c)
    (auto simp: handlers_total on_adapt_proposal_returns split: sum.splits
      dest: propose_action_total)

lemma run_calls_total:
  "run_calls cs s = Inr s' \<Longrightarrow> budget_total s' = budget_total s"
proof (induction cs arbitrary: s)
  case Nil
  then show ?case by simp
next
  case (Cons c cs)
  then show ?case
    by (auto split: sum.splits dest: dispatch_total)
qed

lemma init_total:
  "GlobalStrategy_init now max_evals d ds asy b stop = Inr s \<Longrightarrow>
     budget_total s = np_abs max_evals"
  by (auto simp: GlobalStrategy_init_def budget_total_def split: if_splits)

text \<open>
  C1 (as amended). \<^verbatim>\<open>feval_budget\<close> is a 64-bit numpy integer. As long as the absolute
  value of the configured \<open>max_evals\<close> plus the number of calls made stays below \<open>2^63\<close>
  (so that \<open>max_evals\<close> is not \<open>-2^63\<close> and no step of one can take the budget out of the
  64 bits): in every state reached from construction by calls that return,
  \<open>feval_budget + numeval + feval_pending\<close> is the absolute value of \<open>max_evals\<close>; this is so
  for a count budget and for a time budget alike.
\<close>

theorem budget_conservation:
  assumes "\<bar>max_evals\<bar> + int (length cs) < 2 ^ 63"
    and "GlobalStrategy_init now max_evals d ds asy b stop = Inr s0"
    and "run_calls cs s0 = Inr s"
  shows "feval_budget s + numeval s + feval_pending s = \<bar>max_evals\<bar>"
proof -
  from assms(1) have "max_evals \<noteq> - (2 ^ 63)"
    by auto
  with run_calls_total [OF assms(3)] init_total [OF assms(2)] show ?thesis
    by (simp add: budget_total_def np_abs_def)
qed

theorem budget_conservation_witness:
  "\<exists>s0 s.
     GlobalStrategy_init 0 4 1 [[1/2]] True None None = Inr s0 \<and>
     run_calls
       [Propose_action 1 (returns_rows []),
        On_initial_proposal True [1/2],
        On_initial_update (record_of [1/2] Completed 1),
        Propose_action 2 (returns_rows [[3/10]]),
        On_adapt_proposal True [3/10],
        On_adapt_update (record_of [3/10] Aborted 0),
        Propose_action 3 (returns_rows [[7/10]])] s0 = Inr s \<and>
     \<bar>4::int\<bar> + 7 < 2 ^ 63 \<and>
     feval_budget s + numeval s + feval_pending s = 4"
proof -
  define s0 where "s0 = projr (GlobalStrategy_init 0 4 1 [[1/2]] True None None)"
  have s0: "GlobalStrategy_init 0 4 1 [[1/2]] True None None = Inr s0"
    by (simp add: s0_def GlobalStrategy_init_def)
  have "\<exists>s. run_calls
       [Propose_action 1 (returns_rows []),
        On_initial_proposal True [1/2],
        On_initial_update (record_of [1/2] Completed 1),
        Propose_action 2 (returns_rows [[3/10]]),
        On_adapt_proposal True [3/10],
        On_adapt_update (record_of [3/10] Aborted 0),
        Propose_action 3 (returns_rows [[7/10]])] s0 = Inr s"
    by (simp add: s0_def GlobalStrategy_init_def np_abs_def propose_eqs handler_eqs step_eqs)
  then obtain s where s: "run_calls
       [Propose_action 1 (returns_rows []),
        On_initial_proposal True [1/2],
        On_initial_update (record_of [1/2] Completed 1),
        Propose_action 2 (returns_rows [[3/10]]),
        On_adapt_proposal True [3/10],
        On_adapt_update (record_of [3/10] Aborted 0),
        Propose_action 3 (returns_rows [[7/10]])] s0 = Inr s" ..
  have r: "\<bar>4::int\<bar> + int (length
       [Propose_action 1 (returns_rows []),
        On_initial_proposal True [1/2],
        On_initial_update (record_of [1/2] Completed 1),
        Propose_action 2 (returns_rows [[3/10]]),
        On_adapt_proposal True [3/10],
        On_adapt_update (record_of [3/10] Aborted 0),
        Propose_action 3 (returns_rows [[7/10]])]) < 2 ^ 63"
    by simp
  from budget_conservation [OF r s0 s] s0 s show ?thesis by auto
qed

text \<open>
  C1, as stated. At a time budget of five seconds (\<open>max_evals = -5\<close>) \<^verbatim>\<open>maxeval\<close> is
  infinite, and the three counters add up to 5. At \<open>max_evals = -2^63\<close> they add up to
  \<open>-2^63\<close>, which is not the absolute value.
\<close>

theorem budget_time_counterexample:
  "\<not> isl (GlobalStrategy_init 0 (- 5) 1 [[1/2]] True None None) \<and>
   maxeval (projr (GlobalStrategy_init 0 (- 5) 1 [[1/2]] True None None)) = NpInf \<and>
   feval_budget (projr (GlobalStrategy_init 0 (- 5) 1 [[1/2]] True None None))
     + numeval (projr (GlobalStrategy_init 0 (- 5) 1 [[1/2]] True None None))
     + feval_pending (projr (GlobalStrategy_init 0 (- 5) 1 [[1/2]] True None None)) = 5 \<and>
   \<not> isl (GlobalStrategy_init 0 (- (2 ^ 63)) 1 [[1/2]] True None None) \<and>
   feval_budget (projr (GlobalStrategy_init 0 (- (2 ^ 63)) 1 [[1/2]] True None None))
     + numeval (projr (GlobalStrategy_init 0 (- (2 ^ 63)) 1 [[1/2]] True None None))
     + feval_pending (projr (GlobalStrategy_init 0 (- (2 ^ 63)) 1 [[1/2]] True None None))
     = - (2 ^ 63)"
  by (simp add: GlobalStrategy_init_def np_abs_def)

section \<open>The pending set and the flights\<close>

lemma find_mem: "find P xs = Some f \<Longrightarrow> f \<in> set xs"
  by (induction xs) (auto split: if_splits)

lemma mset_map_remove1:
  "f \<in> set xs \<Longrightarrow> mset (map g (remove1 f xs)) = mset (map g xs) - {#g f#}"
  by (induction xs) auto

lemma mset_map_remove1_add:
  "f \<in> set xs \<Longrightarrow> add_mset (g f) (mset (map g (remove1 f xs))) = mset (map g xs)"
  by (induction xs) auto

lemma filter_neq_subset:
  "M \<subseteq># N \<Longrightarrow> filter_mset (\<lambda>r. r \<noteq> x) M \<subseteq># N - {#x#}"
  by (auto simp: subseteq_mset_def)

lemma filter_neq_single:
  "count N x = 1 \<Longrightarrow> filter_mset (\<lambda>r. r \<noteq> x) N = N - {#x#}"
  by (rule multiset_eqI) auto

text \<open>
  The events that go through: an accepted proposal, a rejected initial proposal (the
  rejection of an adaptive one raises), an update of a record.
\<close>

lemma step_AcceptE:
  assumes "step (Accept ev) sys = Some sys'"
  obtains f where "f \<in> set (proposed sys)"
    "sys' = sys\<lparr>strat := (strat sys)\<lparr>accepted_count := accepted_count (strat sys) + 1\<rparr>,
        proposed := remove1 f (proposed sys), running := running sys @ [f]\<rparr>"
proof -
  from assms obtain f s' where f: "find (\<lambda>f. fst f = ev) (proposed sys) = Some f"
    and cb: "proposal_callback (snd (snd f)) True (fst (snd f)) (strat sys) = Inr s'"
    and sys': "sys' = sys\<lparr>strat := s', proposed := remove1 f (proposed sys),
        running := running sys @ [f]\<rparr>"
    by (auto split: option.splits sum.splits)
  from proposal_callback_returns [OF cb]
  have "s' = (strat sys)\<lparr>accepted_count := accepted_count (strat sys) + 1\<rparr>"
    by simp
  with find_mem [OF f] sys' that show ?thesis
    by simp
qed

lemma step_RejectE:
  assumes "step (Reject ev) sys = Some sys'"
  obtains f where "f \<in> set (proposed sys)" "snd (snd f) = Initial"
    "sys' = sys\<lparr>strat := on_initial_rejected (fst (snd f)) (strat sys),
        proposed := remove1 f (proposed sys)\<rparr>"
proof -
  from assms obtain f s' where f: "find (\<lambda>f. fst f = ev) (proposed sys) = Some f"
    and cb: "proposal_callback (snd (snd f)) False (fst (snd f)) (strat sys) = Inr s'"
    and sys': "sys' = sys\<lparr>strat := s', proposed := remove1 f (proposed sys)\<rparr>"
    by (auto split: option.splits sum.splits)
  from proposal_callback_returns [OF cb]
  have "snd (snd f) = Initial" "s' = on_initial_rejected (fst (snd f)) (strat sys)"
    by simp_all
  with find_mem [OF f] sys' that show ?thesis
    by simp
qed

lemma step_UpdateE:
  assumes "step (Update ev st v) sys = Some sys'"
  obtains f where "f \<in> set (running sys)"
    "sys' = sys\<lparr>strat := record_callback (snd (snd f)) (record_of (fst (snd f)) st v) (strat sys),
        running := (if st = Pending then running sys else remove1 f (running sys))\<rparr>"
  using assms by (auto split: option.splits dest: find_mem)

text \<open>What a call of \<open>propose_action\<close> does to the pending set and its counter.\<close>

lemma propose_action_pending:
  assumes "propose_action t mk s = Inr (a, s')"
  shows "(new_flights a = [] \<and> Xpend s' = Xpend s \<and> feval_pending s' = feval_pending s) \<or>
         (\<exists>x ev cb. new_flights a = [(ev, x, cb)] \<and> Xpend s' = Xpend s @ [x] \<and>
            feval_pending s' = feval_pending s + 1)"
  using assms
proof (cases rule: propose_action_cases)
  case (sync_batch s1)
  from sync_batch(5) have "Xpend s1 = Xpend s" "feval_pending s1 = feval_pending s"
    by (auto elim!: make_batch_eq)
  with adapt_proposal_sync_cases [OF sync_batch(6)] show ?thesis
    by (simp add: new_flights_def)
next
  case sync_adapt
  from adapt_proposal_sync_cases [OF sync_adapt(5)] show ?thesis
    by (simp add: new_flights_def)
qed (auto simp: new_flights_def init_proposal_eq adapt_proposal_async_eq)


lemma record_callback_pending:
  "Xpend (record_callback cb (record_of x Pending v) s) = Xpend s"
  "feval_pending (record_callback cb (record_of x Pending v) s) = feval_pending s"
  "st \<noteq> Pending \<Longrightarrow>
     Xpend (record_callback cb (record_of x st v) s) = filter (\<lambda>r. r \<noteq> x) (Xpend s)"
  "st \<noteq> Pending \<Longrightarrow>
     feval_pending (record_callback cb (record_of x st v) s) = feval_pending s - 1"
  by (cases cb; simp add: handler_eqs record_of_def)+

text \<open>
  An event adds a point to the pending set and to the flights, or leaves both alone, or
  ends one flight and removes every row equal to its point.
\<close>

lemma step_pending:
  assumes "step e sys = Some sys'"
  shows
    "(\<exists>x. mset (in_flight sys') = add_mset x (mset (in_flight sys)) \<and>
        Xpend (strat sys') = Xpend (strat sys) @ [x] \<and>
        feval_pending (strat sys') = feval_pending (strat sys) + 1) \<or>
     (mset (in_flight sys') = mset (in_flight sys) \<and>
        Xpend (strat sys') = Xpend (strat sys) \<and>
        feval_pending (strat sys') = feval_pending (strat sys)) \<or>
     (\<exists>x. x \<in> set (in_flight sys) \<and>
        mset (in_flight sys') = mset (in_flight sys) - {#x#} \<and>
        Xpend (strat sys') = filter (\<lambda>r. r \<noteq> x) (Xpend (strat sys)) \<and>
        feval_pending (strat sys') = feval_pending (strat sys) - 1)"
proof (cases e)
  case (Ask t mk)
  with assms obtain a s' where p: "propose_action t mk (strat sys) = Inr (a, s')"
    and sys': "sys' = sys\<lparr>strat := s', proposed := proposed sys @ new_flights a\<rparr>"
    by (auto split: sum.splits)
  from propose_action_pending [OF p] sys' show ?thesis
    by (auto simp: in_flight_def)
next
  case (Accept ev)
  with assms have "step (Accept ev) sys = Some sys'"
    by simp
  then obtain f where f: "f \<in> set (proposed sys)"
    and sys': "sys' = sys\<lparr>strat := (strat sys)\<lparr>accepted_count := accepted_count (strat sys) + 1\<rparr>,
        proposed := remove1 f (proposed sys), running := running sys @ [f]\<rparr>"
    by (rule step_AcceptE)
  from mset_map_remove1_add [OF f, of "\<lambda>f. fst (snd f)"]
  have "mset (in_flight sys') = mset (in_flight sys)"
    by (simp add: sys' in_flight_def del: mset_map mset_remove1)
  then show ?thesis
    by (simp add: sys')
next
  case (Reject ev)
  with assms have "step (Reject ev) sys = Some sys'"
    by simp
  then obtain f where f: "f \<in> set (proposed sys)"
    and sys': "sys' = sys\<lparr>strat := on_initial_rejected (fst (snd f)) (strat sys),
        proposed := remove1 f (proposed sys)\<rparr>"
    by (rule step_RejectE)
  from f mset_map_remove1 [OF f, of "\<lambda>f. fst (snd f)"]
  have "mset (in_flight sys') = mset (in_flight sys) - {#fst (snd f)#}"
    and "fst (snd f) \<in> set (in_flight sys)"
    by (auto simp: sys' in_flight_def simp del: mset_map mset_remove1)
  then show ?thesis
    by (auto simp: sys' on_initial_rejected_eq)
next
  case (Update ev st v)
  with assms have "step (Update ev st v) sys = Some sys'"
    by simp
  then obtain f where f: "f \<in> set (running sys)"
    and sys': "sys' = sys\<lparr>strat := record_callback (snd (snd f)) (record_of (fst (snd f)) st v) (strat sys),
        running := (if st = Pending then running sys else remove1 f (running sys))\<rparr>"
    by (rule step_UpdateE)
  show ?thesis
  proof (cases "st = Pending")
    case True
    then show ?thesis
      by (simp add: sys' in_flight_def record_callback_pending)
  next
    case False
    with f mset_map_remove1 [OF f, of "\<lambda>f. fst (snd f)"]
    have "mset (in_flight sys') = mset (in_flight sys) - {#fst (snd f)#}"
      and "fst (snd f) \<in> set (in_flight sys)"
      by (auto simp: sys' in_flight_def simp del: mset_map mset_remove1)
    with False show ?thesis
      by (auto simp: sys' record_callback_pending)
  qed
qed

lemma step_tracked:
  assumes "step e sys = Some sys'" "tracked sys"
  shows "tracked sys'"
proof -
  let ?F = "mset (in_flight sys)" and ?F' = "mset (in_flight sys')"
  have len: "int (length (in_flight sys')) = int (size ?F')"
    "int (length (in_flight sys)) = int (size ?F)"
    by simp_all
  from step_pending [OF assms(1)]
  consider (add) x where "?F' = add_mset x ?F"
      "Xpend (strat sys') = Xpend (strat sys) @ [x]"
      "feval_pending (strat sys') = feval_pending (strat sys) + 1"
    | (same) "?F' = ?F" "Xpend (strat sys') = Xpend (strat sys)"
      "feval_pending (strat sys') = feval_pending (strat sys)"
    | (drop) x where "x \<in> set (in_flight sys)" "?F' = ?F - {#x#}"
      "Xpend (strat sys') = filter (\<lambda>r. r \<noteq> x) (Xpend (strat sys))"
      "feval_pending (strat sys') = feval_pending (strat sys) - 1"
    by blast
  then show ?thesis
  proof cases
    case add
    with assms(2) show ?thesis
      unfolding tracked_def len by simp
  next
    case same
    with assms(2) show ?thesis
      unfolding tracked_def len by simp
  next
    case drop
    from drop(1) size_Suc_Diff1 [of x ?F]
    have "Suc (size (?F - {#x#})) = length (in_flight sys)"
      by simp
    then have "int (size (?F - {#x#})) = int (length (in_flight sys)) - 1"
      by linarith
    with drop assms(2) show ?thesis
      unfolding tracked_def len by (simp add: filter_neq_subset)
  qed
qed

lemma step_exact:
  assumes "step e sys = Some sys'" "exact sys" "distinct (in_flight sys)"
  shows "exact sys'"
proof -
  have one: "count (mset (in_flight sys)) x = 1" if "x \<in> set (in_flight sys)" for x
    using that assms(3) by (simp add: distinct_count_atmost_1)
  from step_pending [OF assms(1)] assms(2) show ?thesis
    unfolding exact_def
    by (auto simp: filter_neq_single one)
qed

lemma run_tracked:
  "run es sys = Some sys' \<Longrightarrow> tracked sys \<Longrightarrow> tracked sys'"
  by (induction es arbitrary: sys) (auto split: option.splits dest: step_tracked)

lemma run_exact:
  "run es sys = Some sys' \<Longrightarrow> clash_free es sys \<Longrightarrow> exact sys \<Longrightarrow> exact sys'"
  by (induction es arbitrary: sys) (auto split: option.splits dest: step_exact)

section \<open>The completed set\<close>

lemma propose_action_completed:
  assumes "propose_action t mk s = Inr (a, s')"
  shows "X s' = X s \<and> fX s' = fX s \<and> numeval s' = numeval s"
  using assms
proof (cases rule: propose_action_cases)
  case (sync_batch s1)
  from sync_batch(5) have "X s1 = X s" "fX s1 = fX s" "numeval s1 = numeval s"
    by (auto elim!: make_batch_eq)
  with adapt_proposal_sync_cases(3) [OF sync_batch(6)] show ?thesis
    by simp
next
  case sync_adapt
  from adapt_proposal_sync_cases(3) [OF sync_adapt(5)] show ?thesis
    by simp
qed (auto simp: init_proposal_eq adapt_proposal_async_eq)

lemma handlers_completed:
  "completed_ok s \<Longrightarrow> completed_ok (on_initial_proposal acc xx s)"
  "completed_ok s \<Longrightarrow> completed_ok (on_adapt_accept s)"
  "completed_ok s \<Longrightarrow> completed_ok (on_initial_update r s)"
  "completed_ok s \<Longrightarrow> completed_ok (on_adapt_update r s)"
  by (simp_all add: completed_ok_def handler_eqs split: option.splits)

lemma dispatch_completed:
  assumes "dispatch c s = Inr (a, s')" "completed_ok s"
  shows "completed_ok s'"
proof (cases c)
  case (Propose_action t mk)
  with assms(1) have "propose_action t mk s = Inr (a, s')" by simp
  from propose_action_completed [OF this] assms(2) show ?thesis
    by (simp add: completed_ok_def)
qed (use assms in \<open>auto simp: handlers_completed on_adapt_proposal_returns split: sum.splits\<close>)

lemma run_calls_completed:
  "run_calls cs s = Inr s' \<Longrightarrow> completed_ok s \<Longrightarrow> completed_ok s'"
  by (induction cs arbitrary: s) (auto split: sum.splits dest: dispatch_completed)

text \<open>Every event of the worker pool is one call of the strategy.\<close>

lemma step_is_call:
  assumes "step e sys = Some sys'"
  shows "\<exists>c a. dispatch c (strat sys) = Inr (a, strat sys')"
proof (cases e)
  case (Ask t mk)
  with assms have "\<exists>a. dispatch (Propose_action t mk) (strat sys) = Inr (a, strat sys')"
    by (auto split: sum.splits)
  then show ?thesis by blast
next
  case (Accept ev)
  with assms have "step (Accept ev) sys = Some sys'"
    by simp
  then obtain f s' where
    cb: "proposal_callback (snd (snd f)) True (fst (snd f)) (strat sys) = Inr s'"
    and s': "strat sys' = s'"
    by (auto split: option.splits sum.splits)
  have "dispatch (case snd (snd f) of Initial \<Rightarrow> On_initial_proposal True (fst (snd f))
      | Adaptive \<Rightarrow> On_adapt_proposal True (fst (snd f))) (strat sys) = Inr (None, strat sys')"
    using cb s' by (cases "snd (snd f)") auto
  then show ?thesis by blast
next
  case (Reject ev)
  with assms have "step (Reject ev) sys = Some sys'"
    by simp
  then obtain f where "snd (snd f) = Initial"
    "sys' = sys\<lparr>strat := on_initial_rejected (fst (snd f)) (strat sys),
        proposed := remove1 f (proposed sys)\<rparr>"
    by (rule step_RejectE)
  then have "dispatch (On_initial_proposal False (fst (snd f))) (strat sys) =
      Inr (None, strat sys')"
    by (simp add: on_initial_proposal_def)
  then show ?thesis by blast
next
  case (Update ev st v)
  with assms have "step (Update ev st v) sys = Some sys'"
    by simp
  then obtain x cb where
    "strat sys' = record_callback cb (record_of x st v) (strat sys)"
    by (auto split: option.splits)
  then have "dispatch (case cb of Initial \<Rightarrow> On_initial_update (record_of x st v)
      | Adaptive \<Rightarrow> On_adapt_update (record_of x st v)) (strat sys) = Inr (None, strat sys')"
    by (cases cb) simp_all
  then show ?thesis by blast
qed

lemma run_is_calls:
  "run es sys = Some sys' \<Longrightarrow> \<exists>cs. run_calls cs (strat sys) = Inr (strat sys')"
proof (induction es arbitrary: sys)
  case Nil
  then have "run_calls [] (strat sys) = Inr (strat sys')" by simp
  then show ?case by blast
next
  case (Cons e es)
  then obtain sys1 where st: "step e sys = Some sys1" and rest: "run es sys1 = Some sys'"
    by (auto split: option.splits)
  from step_is_call [OF st] obtain c a where c: "dispatch c (strat sys) = Inr (a, strat sys1)"
    by blast
  from Cons.IH [OF rest] obtain cs where "run_calls cs (strat sys1) = Inr (strat sys')"
    by blast
  with c have "run_calls (c # cs) (strat sys) = Inr (strat sys')" by simp
  then show ?case by blast
qed

lemma init_fields:
  assumes "GlobalStrategy_init now max_evals d ds asy b stop = Inr s0"
  shows "completed_ok s0" "tracked (system_of s0)" "exact (system_of s0)"
    "phase s0 = 1" "init_pending s0 = 0" "asynchronous s0 = asy" "feval_pending s0 = 0"
  using assms
  by (auto simp: GlobalStrategy_init_def completed_ok_def tracked_def exact_def system_of_def
      in_flight_def split: if_splits)

text \<open>
  C2 (as amended). In every state the worker pool can drive the strategy to by events
  whose calls all return (an exception ends the run, as the rejection of an adaptive
  proposal does), \<open>X\<close> and \<open>fX\<close> have \<open>numeval\<close> rows each, and \<open>Xpend\<close> has at most
  \<open>feval_pending\<close> rows; it has exactly \<open>feval_pending\<close> rows when no two proposals under
  way at the same moment ever carried equal points.
\<close>

theorem pending_and_completed_sets:
  assumes "GlobalStrategy_init now max_evals d ds asy b stop = Inr s0"
    and "run es (system_of s0) = Some sys"
  shows "length (X (strat sys)) = length (fX (strat sys)) \<and>
         int (length (X (strat sys))) = numeval (strat sys) \<and>
         int (length (Xpend (strat sys))) \<le> feval_pending (strat sys) \<and>
         (clash_free es (system_of s0) \<longrightarrow>
            int (length (Xpend (strat sys))) = feval_pending (strat sys))"
proof -
  from run_is_calls [OF assms(2)] obtain cs where "run_calls cs s0 = Inr (strat sys)"
    by (auto simp: system_of_def)
  from run_calls_completed [OF this init_fields(1) [OF assms(1)]]
  have c: "length (X (strat sys)) = length (fX (strat sys))"
    "int (length (X (strat sys))) = numeval (strat sys)"
    by (simp_all add: completed_ok_def)
  from run_tracked [OF assms(2) init_fields(2) [OF assms(1)]]
  have t: "feval_pending (strat sys) = int (length (in_flight sys))"
    "mset (Xpend (strat sys)) \<subseteq># mset (in_flight sys)"
    by (simp_all add: tracked_def)
  from size_mset_mono [OF t(2)] t(1)
  have le: "int (length (Xpend (strat sys))) \<le> feval_pending (strat sys)"
    by simp
  have "int (length (Xpend (strat sys))) = feval_pending (strat sys)"
    if "clash_free es (system_of s0)"
  proof -
    from run_exact [OF assms(2) that init_fields(3) [OF assms(1)]]
    have "size (mset (Xpend (strat sys))) = size (mset (in_flight sys))"
      by (simp add: exact_def)
    with t(1) show ?thesis by simp
  qed
  with c le show ?thesis by blast
qed

theorem pending_and_completed_sets_witness:
  "\<exists>s0 sys.
     GlobalStrategy_init 0 4 1 [[1/10], [9/10]] True None None = Inr s0 \<and>
     run [Ask 1 (returns_rows [[3/10]]), Ask 2 (returns_rows [[3/10]]), Accept 1, Accept 2,
          Update 1 Completed (19/20), Ask 3 (returns_rows [[3/10]])] (system_of s0) = Some sys \<and>
     clash_free [Ask 1 (returns_rows [[3/10]]), Ask 2 (returns_rows [[3/10]]), Accept 1, Accept 2,
          Update 1 Completed (19/20), Ask 3 (returns_rows [[3/10]])] (system_of s0) \<and>
     length (X (strat sys)) = length (fX (strat sys)) \<and>
     int (length (X (strat sys))) = numeval (strat sys) \<and>
     int (length (Xpend (strat sys))) = feval_pending (strat sys)"
proof -
  define s0 where "s0 = projr (GlobalStrategy_init 0 4 1 [[1/10], [9/10]] True None None)"
  let ?es = "[Ask 1 (returns_rows [[3/10]]), Ask 2 (returns_rows [[3/10]]), Accept 1, Accept 2,
          Update 1 Completed (19/20), Ask 3 (returns_rows [[3/10::real]])]"
  have s0: "GlobalStrategy_init 0 4 1 [[1/10], [9/10]] True None None = Inr s0"
    by (simp add: s0_def GlobalStrategy_init_def)
  have "\<exists>sys. run ?es (system_of s0) = Some sys"
    by (simp add: s0_def GlobalStrategy_init_def propose_eqs handler_eqs step_eqs)
  then obtain sys where sys: "run ?es (system_of s0) = Some sys" ..
  have cf: "clash_free ?es (system_of s0)"
    by (simp add: s0_def GlobalStrategy_init_def propose_eqs handler_eqs step_eqs)
  from pending_and_completed_sets [OF s0 sys] s0 sys cf show ?thesis by blast
qed

text \<open>
  C2, as stated, with a design that holds the point \<open>[0.5]\<close> twice: both are proposed,
  the first is accepted and completes. The completion removes both rows of \<open>Xpend\<close>, and
  one proposal is still pending.
\<close>

theorem pending_rows_counterexample:
  "run [Ask 1 (returns_rows []), Ask 2 (returns_rows []), Accept 1, Update 1 Completed 1]
     (system_of (projr (GlobalStrategy_init 0 4 1 [[1/2], [1/2]] True None None))) \<noteq> None \<and>
   length (Xpend (strat (the (run [Ask 1 (returns_rows []), Ask 2 (returns_rows []), Accept 1, Update 1 Completed 1]
     (system_of (projr (GlobalStrategy_init 0 4 1 [[1/2], [1/2]] True None None))))))) = 0 \<and>
   feval_pending (strat (the (run [Ask 1 (returns_rows []), Ask 2 (returns_rows []), Accept 1, Update 1 Completed 1]
     (system_of (projr (GlobalStrategy_init 0 4 1 [[1/2], [1/2]] True None None)))))) = 1"
  by (simp add: GlobalStrategy_init_def propose_eqs handler_eqs step_eqs)

section \<open>Best point\<close>

text \<open>
  No entry point assigns \<open>xbest\<close> or \<open>fbest\<close>: they keep the values \<^verbatim>\<open>__init__\<close> gave them,
  although the source comments them as the current best point and value.
\<close>

lemma best_untouched:
  "dispatch c s = Inr (a, s') \<Longrightarrow> fbest s' = fbest s \<and> xbest s' = xbest s"
proof (cases c)
  case (Propose_action t mk)
  assume "dispatch c s = Inr (a, s')"
  with Propose_action have "propose_action t mk s = Inr (a, s')" by simp
  then show ?thesis
  proof (cases rule: propose_action_cases)
    case (sync_batch s1)
    from sync_batch(5) have "fbest s1 = fbest s" "xbest s1 = xbest s"
      by (auto elim!: make_batch_eq)
    with adapt_proposal_sync_cases(3) [OF sync_batch(6)] show ?thesis by simp
  next
    case sync_adapt
    from adapt_proposal_sync_cases(3) [OF sync_adapt(5)] show ?thesis by simp
  qed (auto simp: init_proposal_eq adapt_proposal_async_eq)
qed (auto simp: handler_eqs split: option.splits if_splits sum.splits)

text \<open>
  C3: the claim holds of no run with a completion. Budget 4, design \<open>[0.5]\<close>; the point is
  proposed, accepted and completes with value 1. Afterwards \<open>fX = [1]\<close>, and \<open>fbest\<close> is
  still \<^verbatim>\<open>np.inf\<close> and \<open>xbest\<close> still \<^verbatim>\<open>None\<close>: \<open>fbest <= 1\<close> fails.
\<close>

theorem best_not_tracked:
  "run [Ask 1 (returns_rows []), Accept 1, Update 1 Completed 1]
     (system_of (projr (GlobalStrategy_init 0 4 1 [[1/2]] True None None))) \<noteq> None \<and>
   fX (strat (the (run [Ask 1 (returns_rows []), Accept 1, Update 1 Completed 1]
     (system_of (projr (GlobalStrategy_init 0 4 1 [[1/2]] True None None)))))) = [1] \<and>
   fbest (strat (the (run [Ask 1 (returns_rows []), Accept 1, Update 1 Completed 1]
     (system_of (projr (GlobalStrategy_init 0 4 1 [[1/2]] True None None)))))) = PosInf \<and>
   xbest (strat (the (run [Ask 1 (returns_rows []), Accept 1, Update 1 Completed 1]
     (system_of (projr (GlobalStrategy_init 0 4 1 [[1/2]] True None None)))))) = None \<and>
   \<not> fval_le (fbest (strat (the (run [Ask 1 (returns_rows []), Accept 1, Update 1 Completed 1]
     (system_of (projr (GlobalStrategy_init 0 4 1 [[1/2]] True None None))))))) 1"
  by (simp add: GlobalStrategy_init_def propose_eqs handler_eqs step_eqs)

section \<open>Termination\<close>

text \<open>
  C4. \<open>propose_action\<close> returns a TERMINATE proposal only when a stopping condition holds
  and nothing is pending (and then it leaves the state alone); when a stopping condition
  holds and \<open>feval_pending\<close> is not zero it returns no action; when one holds and nothing is
  pending it does return TERMINATE.
\<close>

theorem termination_safety:
  "(propose_action t mk s = Inr (Some Terminate, s') \<longrightarrow>
      feval_pending s = 0 \<and> stopping t s \<and> s' = s) \<and>
   (stopping t s \<and> feval_pending s \<noteq> 0 \<longrightarrow> propose_action t mk s = Inr (None, s)) \<and>
   (stopping t s \<and> feval_pending s = 0 \<longrightarrow> propose_action t mk s = Inr (Some Terminate, s))"
proof -
  have a: "feval_pending s = 0 \<and> stopping t s \<and> s' = s"
    if "propose_action t mk s = Inr (Some Terminate, s')"
    using that
  proof (cases rule: propose_action_cases)
    case terminate
    then show ?thesis by simp
  next
    case wait
    then show ?thesis by simp
  next
    case async_init
    then show ?thesis by (simp add: init_proposal_eq)
  next
    case async_adapt
    then show ?thesis by (simp add: adapt_proposal_async_eq)
  next
    case sync_init
    then show ?thesis by (simp add: init_proposal_eq)
  next
    case sync_adapt
    from adapt_proposal_sync_cases(2) [OF sync_adapt(5)] show ?thesis by simp
  next
    case (sync_batch s1)
    from adapt_proposal_sync_cases(2) [OF sync_batch(6)] show ?thesis by simp
  next
    case sync_wait
    then show ?thesis by simp
  qed
  have b: "propose_action t mk s = Inr (None, s)" if "stopping t s" "feval_pending s \<noteq> 0"
    using that by (simp add: propose_action_def)
  have c: "propose_action t mk s = Inr (Some Terminate, s)" if "stopping t s" "feval_pending s = 0"
    using that by (simp add: propose_action_def)
  from a b c show ?thesis by blast
qed

theorem termination_safety_witness:
  "(let sA = strat (the (run [Ask 1 (returns_rows []), Accept 1, Update 1 Completed 1]
              (system_of (projr (GlobalStrategy_init 0 1 1 [[1/2]] True None None)))));
        sB = strat (the (run [Ask 1 (returns_rows []), Ask 2 (returns_rows []), Accept 1, Accept 2,
                Update 1 Completed 1]
              (system_of (projr (GlobalStrategy_init 0 1 1 [[1/10], [9/10]] True None None)))))
    in stopping 3 sA \<and> feval_pending sA = 0 \<and>
       propose_action 3 (returns_rows []) sA = Inr (Some Terminate, sA) \<and>
       stopping 3 sB \<and> feval_pending sB = 1 \<and>
       propose_action 3 (returns_rows []) sB = Inr (None, sB))"
proof -
  define sA where "sA = strat (the (run [Ask 1 (returns_rows []), Accept 1, Update 1 Completed 1]
              (system_of (projr (GlobalStrategy_init 0 1 1 [[1/2]] True None None)))))"
  define sB where "sB = strat (the (run [Ask 1 (returns_rows []), Ask 2 (returns_rows []), Accept 1, Accept 2,
                Update 1 Completed 1]
              (system_of (projr (GlobalStrategy_init 0 1 1 [[1/10], [9/10]] True None None)))))"
  have a: "stopping 3 sA" "feval_pending sA = 0"
    by (simp_all add: sA_def GlobalStrategy_init_def propose_eqs handler_eqs step_eqs)
  have b: "stopping 3 sB" "feval_pending sB = 1"
    by (simp_all add: sB_def GlobalStrategy_init_def propose_eqs handler_eqs step_eqs)
  from termination_safety [of 3 "returns_rows []" sA sA] a
  have ta: "propose_action 3 (returns_rows []) sA = Inr (Some Terminate, sA)" by blast
  from termination_safety [of 3 "returns_rows []" sB sB] b
  have tb: "propose_action 3 (returns_rows []) sB = Inr (None, sB)" by simp
  from a b ta tb show ?thesis
    unfolding sA_def sB_def Let_def by blast
qed

section \<open>Rejections, aborts and the pending rows\<close>

text \<open>
  C5. The rejection of an initial proposal of \<open>x\<close>: the four counters move by one, \<open>x\<close>
  goes back to the end of \<open>batch_queue\<close>, and no row of \<open>Xpend\<close> equals \<open>x\<close> afterwards.
  When the rejection follows the proposal at once, \<open>feval_budget\<close> and \<open>batch_queue\<close> are
  what they were before the proposal.
\<close>

theorem initial_rejection:
  "rejected_count (on_initial_proposal False x s1) = rejected_count s1 + 1 \<and>
   feval_budget (on_initial_proposal False x s1) = feval_budget s1 + 1 \<and>
   feval_pending (on_initial_proposal False x s1) = feval_pending s1 - 1 \<and>
   init_pending (on_initial_proposal False x s1) = init_pending s1 - 1 \<and>
   batch_queue (on_initial_proposal False x s1) = batch_queue s1 @ [x] \<and>
   Xpend (on_initial_proposal False x s1) = filter (\<lambda>r. r \<noteq> x) (Xpend s1) \<and>
   x \<notin> set (Xpend (on_initial_proposal False x s1)) \<and>
   (init_proposal s = Inr (Some (Eval x ev cb), s1) \<longrightarrow>
      cb = Initial \<and>
      feval_budget (on_initial_proposal False x s1) = feval_budget s \<and>
      batch_queue (on_initial_proposal False x s1) = batch_queue s)"
  by (auto simp: handler_eqs init_proposal_def make_proposal_eq Let_def split: if_splits)

theorem initial_rejection_witness:
  "(let s = projr (GlobalStrategy_init 0 4 1 [[1/2]] True None None);
        s1 = snd (projr (init_proposal s));
        s2 = on_initial_proposal False [1/2] s1
    in init_proposal s = Inr (Some (Eval [1/2] 1 Initial), s1) \<and>
       feval_budget s = 4 \<and> feval_budget s1 = 3 \<and> feval_budget s2 = 4 \<and>
       batch_queue s1 = [] \<and> batch_queue s2 = [[1/2]] \<and>
       Xpend s1 = [[1/2]] \<and> Xpend s2 = [])"
proof -
  define s where "s = projr (GlobalStrategy_init 0 4 1 [[1/2]] True None None)"
  define s1 where "s1 = snd (projr (init_proposal s))"
  have p: "init_proposal s = Inr (Some (Eval [1/2] 1 Initial), s1)"
    by (simp add: s1_def s_def GlobalStrategy_init_def np_abs_def init_proposal_eq)
  have f: "feval_budget s = 4" "feval_budget s1 = 3" "batch_queue s1 = []" "Xpend s1 = [[1/2]]"
    "batch_queue s = [[1/2]]"
    by (simp_all add: s1_def s_def GlobalStrategy_init_def np_abs_def init_proposal_eq)
  from initial_rejection [of "[1/2]" s1 s 1 Initial] p f
  have "feval_budget (on_initial_proposal False [1/2] s1) = 4"
    "batch_queue (on_initial_proposal False [1/2] s1) = [[1/2]]"
    "Xpend (on_initial_proposal False [1/2] s1) = []"
    by simp_all
  with p f show ?thesis
    unfolding s_def s1_def Let_def by blast
qed

text \<open>
  An adaptive record that aborts: the budget goes up by one, \<open>feval_pending\<close> down by
  one, no row of \<open>Xpend\<close> equals the point afterwards, and \<open>batch_queue\<close>, \<open>numeval\<close>, \<open>X\<close>
  and \<open>fX\<close> are untouched.
\<close>

lemma adaptive_discard:
  "feval_budget (on_adapt_update (r\<lparr>rec_status := Aborted\<rparr>) s) = feval_budget s + 1 \<and>
   feval_pending (on_adapt_update (r\<lparr>rec_status := Aborted\<rparr>) s) = feval_pending s - 1 \<and>
   rec_params r \<notin> set (Xpend (on_adapt_update (r\<lparr>rec_status := Aborted\<rparr>) s)) \<and>
   batch_queue (on_adapt_update (r\<lparr>rec_status := Aborted\<rparr>) s) = batch_queue s \<and>
   numeval (on_adapt_update (r\<lparr>rec_status := Aborted\<rparr>) s) = numeval s \<and>
   X (on_adapt_update (r\<lparr>rec_status := Aborted\<rparr>) s) = X s \<and>
   fX (on_adapt_update (r\<lparr>rec_status := Aborted\<rparr>) s) = fX s"
  by (simp add: handler_eqs)

text \<open>
  An adaptive proposal that is rejected, in any state: the handler raises, after it has
  moved its three counters; \<open>Xpend\<close> and everything else are as they were.
\<close>

lemma adaptive_rejection:
  "on_adapt_proposal False x s =
     Inl (AttributeError,
          s\<lparr>rejected_count := rejected_count s + 1, feval_budget := feval_budget s + 1,
            feval_pending := feval_pending s - 1\<rparr>)"
  by (simp add: on_adapt_proposal_def on_adapt_reject_eq)

text \<open>
  C6: the claim fails on the code for the rejection. Budget 4, design \<open>[0.5]\<close>,
  asynchronous: the design point completes, then the adaptive proposal of \<open>[0.3]\<close> is
  issued (\<^verbatim>\<open>ev_id\<close> 2) and rejected. The handler raises an AttributeError; it leaves
  \<open>feval_budget = 3\<close>, \<open>feval_pending = 0\<close> and \<open>rejected_count = 1\<close>, and \<open>[0.3]\<close> is still a
  row of \<open>Xpend\<close>. The run of the worker pool ends there.
\<close>

theorem adaptive_rejection_raises:
  "(run [Ask 1 (returns_rows []), Accept 1, Update 1 Completed 1,
            Ask 2 (returns_rows [[3/10]])]
         (system_of (projr (GlobalStrategy_init 0 4 1 [[1/2]] True None None)))) \<noteq> None \<and>
   proposed (the (run [Ask 1 (returns_rows []), Accept 1, Update 1 Completed 1,
            Ask 2 (returns_rows [[3/10]])]
         (system_of (projr (GlobalStrategy_init 0 4 1 [[1/2]] True None None))))) = [(2, [3/10], Adaptive)] \<and>
   Xpend (strat (the (run [Ask 1 (returns_rows []), Accept 1, Update 1 Completed 1,
            Ask 2 (returns_rows [[3/10]])]
         (system_of (projr (GlobalStrategy_init 0 4 1 [[1/2]] True None None)))))) = [[3/10]] \<and>
   isl (on_adapt_proposal False [3/10] (strat (the (run [Ask 1 (returns_rows []), Accept 1, Update 1 Completed 1,
            Ask 2 (returns_rows [[3/10]])]
         (system_of (projr (GlobalStrategy_init 0 4 1 [[1/2]] True None None))))))) \<and>
   fst (projl (on_adapt_proposal False [3/10] (strat (the (run [Ask 1 (returns_rows []), Accept 1, Update 1 Completed 1,
            Ask 2 (returns_rows [[3/10]])]
         (system_of (projr (GlobalStrategy_init 0 4 1 [[1/2]] True None None)))))))) = AttributeError \<and>
   Xpend (snd (projl (on_adapt_proposal False [3/10] (strat (the (run [Ask 1 (returns_rows []), Accept 1, Update 1 Completed 1,
            Ask 2 (returns_rows [[3/10]])]
         (system_of (projr (GlobalStrategy_init 0 4 1 [[1/2]] True None None))))))))) = [[3/10]] \<and>
   feval_budget (snd (projl (on_adapt_proposal False [3/10] (strat (the (run [Ask 1 (returns_rows []), Accept 1, Update 1 Completed 1,
            Ask 2 (returns_rows [[3/10]])]
         (system_of (projr (GlobalStrategy_init 0 4 1 [[1/2]] True None None))))))))) = 3 \<and>
   feval_pending (snd (projl (on_adapt_proposal False [3/10] (strat (the (run [Ask 1 (returns_rows []), Accept 1, Update 1 Completed 1,
            Ask 2 (returns_rows [[3/10]])]
         (system_of (projr (GlobalStrategy_init 0 4 1 [[1/2]] True None None))))))))) = 0 \<and>
   rejected_count (snd (projl (on_adapt_proposal False [3/10] (strat (the (run [Ask 1 (returns_rows []), Accept 1, Update 1 Completed 1,
            Ask 2 (returns_rows [[3/10]])]
         (system_of (projr (GlobalStrategy_init 0 4 1 [[1/2]] True None None))))))))) = 1 \<and>
   step (Reject 2) (the (run [Ask 1 (returns_rows []), Accept 1, Update 1 Completed 1,
            Ask 2 (returns_rows [[3/10]])]
         (system_of (projr (GlobalStrategy_init 0 4 1 [[1/2]] True None None))))) = None"
  by (simp add: GlobalStrategy_init_def propose_eqs handler_eqs step_eqs)

lemma length_filter_neq:
  "int (length (filter (\<lambda>r. r \<noteq> x) xs)) = int (length xs) - int (count_list xs x)"
  by (induction xs) auto

text \<open>
  The rejection of an initial proposal, and the completion and the abort of an initial
  or an adaptive record, each drop every row of \<open>Xpend\<close> equal to the point (as many rows
  as it occurs), and take one off \<open>feval_pending\<close>.
\<close>

lemma terminal_event_removes_all_rows:
  "Xpend (on_initial_proposal False x s) = filter (\<lambda>r. r \<noteq> x) (Xpend s) \<and>
   x \<notin> set (Xpend (on_initial_proposal False x s)) \<and>
   int (length (Xpend (on_initial_proposal False x s))) =
     int (length (Xpend s)) - int (count_list (Xpend s) x) \<and>
   feval_pending (on_initial_proposal False x s) = feval_pending s - 1 \<and>
   Xpend (record_callback cb (r\<lparr>rec_status := Completed\<rparr>) s) =
     filter (\<lambda>y. y \<noteq> rec_params r) (Xpend s) \<and>
   rec_params r \<notin> set (Xpend (record_callback cb (r\<lparr>rec_status := Completed\<rparr>) s)) \<and>
   int (length (Xpend (record_callback cb (r\<lparr>rec_status := Completed\<rparr>) s))) =
     int (length (Xpend s)) - int (count_list (Xpend s) (rec_params r)) \<and>
   feval_pending (record_callback cb (r\<lparr>rec_status := Completed\<rparr>) s) = feval_pending s - 1 \<and>
   Xpend (record_callback cb (r\<lparr>rec_status := Aborted\<rparr>) s) =
     filter (\<lambda>y. y \<noteq> rec_params r) (Xpend s) \<and>
   rec_params r \<notin> set (Xpend (record_callback cb (r\<lparr>rec_status := Aborted\<rparr>) s)) \<and>
   int (length (Xpend (record_callback cb (r\<lparr>rec_status := Aborted\<rparr>) s))) =
     int (length (Xpend s)) - int (count_list (Xpend s) (rec_params r)) \<and>
   feval_pending (record_callback cb (r\<lparr>rec_status := Aborted\<rparr>) s) = feval_pending s - 1"
  by (cases cb) (simp_all add: handler_eqs length_filter_neq)

text \<open>
  C10: the claim fails on the code for the rejection of an adaptive proposal. As in the
  run above, but the sampler answers \<open>[0.3]\<close> twice, so that two adaptive proposals of
  \<open>[0.3]\<close> are pending (\<^verbatim>\<open>ev_id\<close> 2 and 3). One of them is rejected: the handler raises
  an AttributeError, \<open>feval_pending\<close> is 1, and both rows are still in \<open>Xpend\<close>.
\<close>

theorem adaptive_rejection_keeps_rows:
  "(run [Ask 1 (returns_rows []), Accept 1, Update 1 Completed 1,
            Ask 2 (returns_rows [[3/10]]), Ask 3 (returns_rows [[3/10]])]
         (system_of (projr (GlobalStrategy_init 0 4 1 [[1/2]] True None None)))) \<noteq> None \<and>
   proposed (the (run [Ask 1 (returns_rows []), Accept 1, Update 1 Completed 1,
            Ask 2 (returns_rows [[3/10]]), Ask 3 (returns_rows [[3/10]])]
         (system_of (projr (GlobalStrategy_init 0 4 1 [[1/2]] True None None))))) = [(2, [3/10], Adaptive), (3, [3/10], Adaptive)] \<and>
   Xpend (strat (the (run [Ask 1 (returns_rows []), Accept 1, Update 1 Completed 1,
            Ask 2 (returns_rows [[3/10]]), Ask 3 (returns_rows [[3/10]])]
         (system_of (projr (GlobalStrategy_init 0 4 1 [[1/2]] True None None)))))) = [[3/10], [3/10]] \<and>
   feval_pending (strat (the (run [Ask 1 (returns_rows []), Accept 1, Update 1 Completed 1,
            Ask 2 (returns_rows [[3/10]]), Ask 3 (returns_rows [[3/10]])]
         (system_of (projr (GlobalStrategy_init 0 4 1 [[1/2]] True None None)))))) = 2 \<and>
   isl (on_adapt_proposal False [3/10] (strat (the (run [Ask 1 (returns_rows []), Accept 1, Update 1 Completed 1,
            Ask 2 (returns_rows [[3/10]]), Ask 3 (returns_rows [[3/10]])]
         (system_of (projr (GlobalStrategy_init 0 4 1 [[1/2]] True None None))))))) \<and>
   fst (projl (on_adapt_proposal False [3/10] (strat (the (run [Ask 1 (returns_rows []), Accept 1, Update 1 Completed 1,
            Ask 2 (returns_rows [[3/10]]), Ask 3 (returns_rows [[3/10]])]
         (system_of (projr (GlobalStrategy_init 0 4 1 [[1/2]] True None None)))))))) = AttributeError \<and>
   Xpend (snd (projl (on_adapt_proposal False [3/10] (strat (the (run [Ask 1 (returns_rows []), Accept 1, Update 1 Completed 1,
            Ask 2 (returns_rows [[3/10]]), Ask 3 (returns_rows [[3/10]])]
         (system_of (projr (GlobalStrategy_init 0 4 1 [[1/2]] True None None))))))))) = [[3/10], [3/10]] \<and>
   feval_pending (snd (projl (on_adapt_proposal False [3/10] (strat (the (run [Ask 1 (returns_rows []), Accept 1, Update 1 Completed 1,
            Ask 2 (returns_rows [[3/10]]), Ask 3 (returns_rows [[3/10]])]
         (system_of (projr (GlobalStrategy_init 0 4 1 [[1/2]] True None None))))))))) = 1 \<and>
   step (Reject 2) (the (run [Ask 1 (returns_rows []), Accept 1, Update 1 Completed 1,
            Ask 2 (returns_rows [[3/10]]), Ask 3 (returns_rows [[3/10]])]
         (system_of (projr (GlobalStrategy_init 0 4 1 [[1/2]] True None None))))) = None"
  by (simp add: GlobalStrategy_init_def propose_eqs handler_eqs step_eqs)

section \<open>Resuming\<close>



section \<open>The synchronous batch\<close>

lemma nsamples_positive:
  assumes "\<not> stopping t s" "1 \<le> b"
  shows "1 \<le> nsamples_of b s"
  using assms
  by (cases "maxeval s") (auto simp: nsamples_of_def stopping_def)

text \<open>
  C9 (as amended). In synchronous mode, with an empty queue, nothing pending and no
  stopping condition, and with a batch size of at least one and a sampler that returns
  the rows it is asked for: \<open>propose_action\<close> sets the phase to 2, asks the sampler once,
  for \<open>n = min(batch_size, maxeval - numeval)\<close> points with \<open>n \<ge> 1\<close>, queues the first \<open>n\<close>
  rows of the answer and proposes the last of them (the queue is popped from its end),
  as an adaptive proposal; the rows before it stay queued.
\<close>

theorem synchronous_batch:
  assumes "\<not> asynchronous s" "batch_queue s = []" "feval_pending s = 0" "\<not> stopping t s"
    and "batch_size s = Some b" "1 \<le> b"
    and "n = nsamples_of b s" "n \<le> int (length (make_points n))"
  shows "1 \<le> n \<and>
    (\<exists>s'. propose_action t make_points s =
        Inr (Some (Eval (make_points n ! (nat n - 1)) (ev_last s + 1) Adaptive), s') \<and>
      phase s' = 2 \<and>
      sampler_calls s' = n # sampler_calls s \<and>
      batch_queue s' = take (nat n - 1) (make_points n) \<and>
      Xpend s' = Xpend s @ [make_points n ! (nat n - 1)] \<and>
      feval_pending s' = 1)"
proof -
  from nsamples_positive [OF assms(4,6)] assms(7) have n: "1 \<le> n" by simp
  define q where "q = take (nat n) (make_points n)"
  from n assms(8) have len: "length q = nat n" and ne: "q \<noteq> []"
    by (auto simp: q_def)
  define s1 where "s1 = s\<lparr>phase := 2, sampler_calls := n # sampler_calls s, batch_queue := q\<rparr>"
  have ns: "nsamples_of b (s\<lparr>phase := 2\<rparr>) = n"
    using assms(7) by (simp add: nsamples_of_def split: limit.splits)
  have mb: "make_batch make_points (s\<lparr>phase := 2\<rparr>) = Inr s1"
    using assms(2,5,8)
    by (simp add: make_batch_def ns s1_def q_def Let_def)
  have lastq: "last q = make_points n ! (nat n - 1)"
    using ne len n assms(8) by (simp add: last_conv_nth q_def)
  have butq: "butlast q = take (nat n - 1) (make_points n)"
    using len by (simp add: q_def butlast_take)
  from ne have ne1: "batch_queue s1 \<noteq> []" by (simp add: s1_def)
  have "propose_action t make_points s =
      Inr (Some (Eval (last q) (ev_last s + 1) Adaptive),
        s1\<lparr>proposal_counter := proposal_counter s1 + 1,
         batch_queue := butlast (batch_queue s1),
         feval_budget := feval_budget s1 - 1, feval_pending := feval_pending s1 + 1,
         ev_last := ev_last s1 + 1, Xpend := Xpend s1 @ [last (batch_queue s1)]\<rparr>)"
    using assms(1-4) mb adapt_proposal_sync_eq [OF ne1]
    by (simp add: propose_action_def s1_def)
  with n lastq butq assms(3) show ?thesis
    by (simp add: s1_def)
qed

theorem synchronous_batch_witness:
  "(let sA = strat (the (run [Ask 1 (returns_rows []), Ask 1 (returns_rows []), Accept 1, Accept 2,
                Update 1 Completed (19/20), Update 2 Completed (1/20)]
              (system_of (projr (GlobalStrategy_init 0 4 1 [[1/10], [9/10]] False (Some 2) None)))))
    in \<not> asynchronous sA \<and> batch_queue sA = [] \<and> feval_pending sA = 0 \<and> \<not> stopping 2 sA \<and>
       numeval sA = 2 \<and> maxeval sA = Num 4 \<and> batch_size sA = Some 2 \<and> nsamples_of 2 sA = 2 \<and>
       (\<exists>s'. propose_action 2 (returns_rows [[3/10], [7/10]]) sA =
               Inr (Some (Eval [7/10] 3 Adaptive), s') \<and>
             phase s' = 2 \<and> sampler_calls s' = [2] \<and> batch_queue s' = [[3/10]] \<and>
             Xpend s' = [[7/10]] \<and> feval_pending s' = 1))"
proof -
  define sA where "sA = strat (the (run [Ask 1 (returns_rows []), Ask 1 (returns_rows []), Accept 1, Accept 2,
                Update 1 Completed (19/20), Update 2 Completed (1/20)]
              (system_of (projr (GlobalStrategy_init 0 4 1 [[1/10], [9/10]] False (Some 2) None)))))"
  have h: "\<not> asynchronous sA" "batch_queue sA = []" "feval_pending sA = 0" "\<not> stopping 2 sA"
    "batch_size sA = Some 2" "(1::int) \<le> 2" "2 = nsamples_of 2 sA"
    "2 \<le> int (length ((returns_rows [[3/10], [7/10::real]]) (2::int)))"
    by (simp_all add: sA_def GlobalStrategy_init_def propose_eqs handler_eqs step_eqs)
  have f: "numeval sA = 2" "maxeval sA = Num 4" "ev_last sA = 2" "sampler_calls sA = []"
    "Xpend sA = []"
    by (simp_all add: sA_def GlobalStrategy_init_def propose_eqs handler_eqs step_eqs)
  from synchronous_batch [where make_points = "returns_rows [[3/10], [7/10]]", OF h] f
  have "\<exists>s'. propose_action 2 (returns_rows [[3/10], [7/10]]) sA =
               Inr (Some (Eval [7/10] 3 Adaptive), s') \<and>
             phase s' = 2 \<and> sampler_calls s' = [2] \<and> batch_queue s' = [[3/10]] \<and>
             Xpend s' = [[7/10]] \<and> feval_pending s' = 1"
    by (simp add: returns_rows_def)
  with h f show ?thesis
    unfolding sA_def Let_def by simp
qed

text \<open>
  C9, as stated. After the two design points have completed (budget 4, batch size 2) the
  sampler returns the batch \<open>[0.3], [0.7]\<close>: the point proposed is \<open>[0.7]\<close>, not the first
  one. With \<open>batch_size = 0\<close> the sampler is asked for 0 points, and \<open>propose_action\<close>
  raises on the queue that stays empty.
\<close>

theorem synchronous_batch_counterexample:
  "(run [Ask 1 (returns_rows []), Ask 1 (returns_rows []), Accept 1, Accept 2,
              Update 1 Completed (19/20), Update 2 Completed (1/20),
              Ask 2 (returns_rows [[3/10], [7/10]])]
         (system_of (projr (GlobalStrategy_init 0 4 1 [[1/10], [9/10]] False (Some 2) None)))) \<noteq> None \<and>
   hd (returns_rows [[3/10], [7/10]] 2) = [3/10] \<and>
   proposed (the (run [Ask 1 (returns_rows []), Ask 1 (returns_rows []), Accept 1, Accept 2,
              Update 1 Completed (19/20), Update 2 Completed (1/20),
              Ask 2 (returns_rows [[3/10], [7/10]])]
         (system_of (projr (GlobalStrategy_init 0 4 1 [[1/10], [9/10]] False (Some 2) None))))) = [(3, [7/10], Adaptive)] \<and>
   batch_queue (strat (the (run [Ask 1 (returns_rows []), Ask 1 (returns_rows []), Accept 1, Accept 2,
              Update 1 Completed (19/20), Update 2 Completed (1/20),
              Ask 2 (returns_rows [[3/10], [7/10]])]
         (system_of (projr (GlobalStrategy_init 0 4 1 [[1/10], [9/10]] False (Some 2) None)))))) = [[3/10]] \<and>
   \<not> asynchronous (strat (the (run [Ask 1 (returns_rows []), Accept 1, Update 1 Completed 1]
         (system_of (projr (GlobalStrategy_init 0 4 1 [[1/2]] False (Some 0) None)))))) \<and>
   batch_queue (strat (the (run [Ask 1 (returns_rows []), Accept 1, Update 1 Completed 1]
         (system_of (projr (GlobalStrategy_init 0 4 1 [[1/2]] False (Some 0) None)))))) = [] \<and>
   feval_pending (strat (the (run [Ask 1 (returns_rows []), Accept 1, Update 1 Completed 1]
         (system_of (projr (GlobalStrategy_init 0 4 1 [[1/2]] False (Some 0) None)))))) = 0 \<and>
   \<not> stopping 2 (strat (the (run [Ask 1 (returns_rows []), Accept 1, Update 1 Completed 1]
         (system_of (projr (GlobalStrategy_init 0 4 1 [[1/2]] False (Some 0) None)))))) \<and>
   batch_size (strat (the (run [Ask 1 (returns_rows []), Accept 1, Update 1 Completed 1]
         (system_of (projr (GlobalStrategy_init 0 4 1 [[1/2]] False (Some 0) None)))))) = Some 0 \<and>
   sampler_calls (projr (make_batch (returns_rows []) ((strat (the (run [Ask 1 (returns_rows []), Accept 1, Update 1 Completed 1]
         (system_of (projr (GlobalStrategy_init 0 4 1 [[1/2]] False (Some 0) None))))))\<lparr>phase := 2\<rparr>))) = [0] \<and>
   propose_action 2 (returns_rows []) (strat (the (run [Ask 1 (returns_rows []), Accept 1, Update 1 Completed 1]
         (system_of (projr (GlobalStrategy_init 0 4 1 [[1/2]] False (Some 0) None)))))) = Inl IndexError"
  by (simp add: GlobalStrategy_init_def propose_eqs handler_eqs step_eqs Let_def
      adapt_proposal_sync_def make_proposal_eq)

section \<open>The phase\<close>

lemma callbacks_phase:
  "phase (on_initial_rejected x s) = phase s"
  "asynchronous (on_initial_rejected x s) = asynchronous s"
  "phase (record_callback cb r s) = phase s"
  "asynchronous (record_callback cb r s) = asynchronous s"
  by (cases cb; simp add: handler_eqs split: option.splits)+

lemma initial_callbacks_pending:
  "init_pending (on_initial_rejected x s) = init_pending s - 1"
  "feval_pending (on_initial_rejected x s) = feval_pending s - 1"
  "init_pending (record_callback Initial (record_of x Pending v) s) = init_pending s"
  "feval_pending (record_callback Initial (record_of x Pending v) s) = feval_pending s"
  "st \<noteq> Pending \<Longrightarrow>
     init_pending (record_callback Initial (record_of x st v) s) = init_pending s - 1"
  "st \<noteq> Pending \<Longrightarrow>
     feval_pending (record_callback Initial (record_of x st v) s) = feval_pending s - 1"
  by (simp_all add: handler_eqs record_of_def)

text \<open>What \<open>propose_action\<close> does to the phase.\<close>

lemma propose_action_phase:
  assumes "propose_action t mk s = Inr (a, s')"
  shows "asynchronous s' = asynchronous s \<and>
    (phase s' = phase s \<or>
       (phase s' = 2 \<and> \<not> asynchronous s \<and> batch_queue s = [] \<and> feval_pending s = 0 \<and>
        \<not> stopping t s)) \<and>
    (\<not> asynchronous s \<and> phase s = 1 \<and> phase s' = 1 \<longrightarrow>
       list_all (\<lambda>f. snd (snd f) = Initial) (new_flights a) \<and>
       init_pending s' - init_pending s = feval_pending s' - feval_pending s) \<and>
    (\<not> asynchronous s \<and> batch_queue s = [] \<and> feval_pending s = 0 \<and> \<not> stopping t s \<longrightarrow>
       phase s' = 2)"
  using assms
proof (cases rule: propose_action_cases)
  case terminate
  then show ?thesis by (simp add: new_flights_def)
next
  case wait
  then show ?thesis by (simp add: new_flights_def)
next
  case async_init
  then show ?thesis by (auto simp: init_proposal_eq)
next
  case async_adapt
  then show ?thesis by (auto simp: adapt_proposal_async_eq)
next
  case sync_init
  then show ?thesis by (auto simp: init_proposal_eq new_flights_def)
next
  case sync_adapt
  from adapt_proposal_sync_cases(3) [OF sync_adapt(5)] sync_adapt(1-4) show ?thesis
    by simp
next
  case (sync_batch s1)
  from sync_batch(5) have "phase s1 = 2" "asynchronous s1 = asynchronous s"
    by (auto elim!: make_batch_eq)
  with adapt_proposal_sync_cases(3) [OF sync_batch(6)]
  have "phase s' = 2" "asynchronous s' = asynchronous s" by simp_all
  with sync_batch(1-4) show ?thesis by simp
next
  case sync_wait
  then show ?thesis by (simp add: new_flights_def)
qed

lemma list_all_remove1: "list_all P xs \<Longrightarrow> list_all P (remove1 x xs)"
  by (induction xs) auto

lemma step_phase_ok:
  assumes "step e sys = Some sys'" "phase_ok sys"
  shows "phase_ok sys'"
proof (cases e)
  case (Ask t mk)
  with assms(1) obtain a s' where p: "propose_action t mk (strat sys) = Inr (a, s')"
    and sys': "sys' = sys\<lparr>strat := s', proposed := proposed sys @ new_flights a\<rparr>"
    by (auto split: sum.splits)
  from propose_action_phase [OF p] assms(2) show ?thesis
    unfolding phase_ok_def sys' by auto
next
  case (Accept ev)
  with assms(1) have "step (Accept ev) sys = Some sys'"
    by simp
  then obtain f where f: "f \<in> set (proposed sys)"
    and sys': "sys' = sys\<lparr>strat := (strat sys)\<lparr>accepted_count := accepted_count (strat sys) + 1\<rparr>,
        proposed := remove1 f (proposed sys), running := running sys @ [f]\<rparr>"
    by (rule step_AcceptE)
  show ?thesis
  proof (cases "\<not> asynchronous (strat sys) \<and> phase (strat sys) = 1")
    case True
    with assms(2) have all: "list_all (\<lambda>f. snd (snd f) = Initial) (proposed sys @ running sys)"
      and eq: "init_pending (strat sys) = feval_pending (strat sys)"
      by (simp_all add: phase_ok_def)
    from all f have cb: "snd (snd f) = Initial"
      by (auto simp: list_all_iff)
    from all cb True eq show ?thesis
      by (simp add: phase_ok_def sys' list_all_remove1)
  next
    case False
    with assms(2) show ?thesis
      by (auto simp: phase_ok_def sys')
  qed
next
  case (Reject ev)
  with assms(1) have "step (Reject ev) sys = Some sys'"
    by simp
  then obtain f where f: "f \<in> set (proposed sys)"
    and sys': "sys' = sys\<lparr>strat := on_initial_rejected (fst (snd f)) (strat sys),
        proposed := remove1 f (proposed sys)\<rparr>"
    by (rule step_RejectE)
  show ?thesis
  proof (cases "\<not> asynchronous (strat sys) \<and> phase (strat sys) = 1")
    case True
    with assms(2) have all: "list_all (\<lambda>f. snd (snd f) = Initial) (proposed sys @ running sys)"
      and eq: "init_pending (strat sys) = feval_pending (strat sys)"
      by (simp_all add: phase_ok_def)
    from all True eq show ?thesis
      by (simp add: phase_ok_def sys' callbacks_phase initial_callbacks_pending list_all_remove1)
  next
    case False
    with assms(2) show ?thesis
      by (auto simp: phase_ok_def sys' callbacks_phase)
  qed
next
  case (Update ev st v)
  with assms(1) have "step (Update ev st v) sys = Some sys'"
    by simp
  then obtain f where f: "f \<in> set (running sys)"
    and sys': "sys' = sys\<lparr>strat := record_callback (snd (snd f)) (record_of (fst (snd f)) st v) (strat sys),
        running := (if st = Pending then running sys else remove1 f (running sys))\<rparr>"
    by (rule step_UpdateE)
  show ?thesis
  proof (cases "\<not> asynchronous (strat sys) \<and> phase (strat sys) = 1")
    case True
    with assms(2) have all: "list_all (\<lambda>f. snd (snd f) = Initial) (proposed sys @ running sys)"
      and eq: "init_pending (strat sys) = feval_pending (strat sys)"
      by (simp_all add: phase_ok_def)
    from all f have cb: "snd (snd f) = Initial"
      by (auto simp: list_all_iff)
    from all cb True eq show ?thesis
      by (cases "st = Pending")
        (simp_all add: phase_ok_def sys' callbacks_phase initial_callbacks_pending
          list_all_remove1 del: record_callback.simps)
  next
    case False
    with assms(2) show ?thesis
      by (auto simp: phase_ok_def sys' callbacks_phase)
  qed
qed

lemma run_phase_ok:
  "run es sys = Some sys' \<Longrightarrow> phase_ok sys \<Longrightarrow> phase_ok sys'"
  by (induction es arbitrary: sys) (auto split: option.splits dest: step_phase_ok)

text \<open>
  An event leaves the phase alone, unless it is a synchronous \<open>propose_action\<close> that
  finds the queue empty, nothing pending and no stopping condition: that one sets it
  to 2.
\<close>

lemma step_phase:
  assumes "step e sys = Some sys'"
  shows "phase (strat sys') = phase (strat sys) \<or>
     (phase (strat sys') = 2 \<and> (\<exists>t mk. e = Ask t mk \<and> \<not> stopping t (strat sys)) \<and>
      \<not> asynchronous (strat sys) \<and> batch_queue (strat sys) = [] \<and>
      feval_pending (strat sys) = 0)"
proof (cases e)
  case (Ask t mk)
  with assms obtain a where "propose_action t mk (strat sys) = Inr (a, strat sys')"
    by (auto split: sum.splits)
  from propose_action_phase [OF this] Ask show ?thesis by blast
next
  case (Accept ev)
  with assms have "step (Accept ev) sys = Some sys'"
    by simp
  then show ?thesis
    by (rule step_AcceptE) simp
next
  case (Reject ev)
  with assms have "step (Reject ev) sys = Some sys'"
    by simp
  then show ?thesis
    by (rule step_RejectE) (simp add: callbacks_phase)
next
  case (Update ev st v)
  with assms have "step (Update ev st v) sys = Some sys'"
    by simp
  then show ?thesis
    by (rule step_UpdateE) (simp add: callbacks_phase)
qed

text \<open>
  C8 (as amended). In every state the worker pool can drive the strategy to, by events
  whose calls return: the phase is 1 or 2; in asynchronous mode it is 1; once it is 2 it
  stays 2 after every event; in synchronous mode, when \<open>init_pending\<close> is zero and
  \<open>batch_queue\<close> is empty, a \<open>propose_action\<close> that finds no stopping condition and
  returns leaves the phase at 2; and the phase changes at no other event: an event that
  changes it is a synchronous \<open>propose_action\<close> that finds no stopping condition, an
  empty \<open>batch_queue\<close>, and \<open>init_pending\<close> and \<open>feval_pending\<close> at zero.
\<close>

theorem phase_transition:
  assumes "GlobalStrategy_init now max_evals d ds asy b stop = Inr s0"
    and "run es (system_of s0) = Some sys"
  shows "(phase (strat sys) = 1 \<or> phase (strat sys) = 2) \<and>
    (asynchronous (strat sys) \<longrightarrow> phase (strat sys) = 1) \<and>
    (\<forall>e sys'. phase (strat sys) = 2 \<and> step e sys = Some sys' \<longrightarrow> phase (strat sys') = 2) \<and>
    (\<forall>t mk sys'. \<not> asynchronous (strat sys) \<and> init_pending (strat sys) = 0 \<and>
        batch_queue (strat sys) = [] \<and> \<not> stopping t (strat sys) \<and>
        step (Ask t mk) sys = Some sys' \<longrightarrow> phase (strat sys') = 2) \<and>
    (\<forall>e sys'. step e sys = Some sys' \<and> phase (strat sys') \<noteq> phase (strat sys) \<longrightarrow>
        (\<exists>t mk. e = Ask t mk \<and> \<not> stopping t (strat sys)) \<and>
        \<not> asynchronous (strat sys) \<and> batch_queue (strat sys) = [] \<and>
        init_pending (strat sys) = 0 \<and> feval_pending (strat sys) = 0 \<and>
        phase (strat sys) = 1 \<and> phase (strat sys') = 2)"
proof -
  from init_fields(4,5,7) [OF assms(1)] have "phase_ok (system_of s0)"
    by (simp add: phase_ok_def system_of_def)
  from run_phase_ok [OF assms(2) this] have ok: "phase_ok sys" .
  have mono: "phase (strat sys') = 2" if "phase (strat sys) = 2" "step e sys = Some sys'"
    for e sys'
    using step_phase [OF that(2)] that(1) by auto
  have trans: "phase (strat sys') = 2"
    if "\<not> asynchronous (strat sys)" "init_pending (strat sys) = 0"
      "batch_queue (strat sys) = []" "\<not> stopping t (strat sys)"
      "step (Ask t mk) sys = Some sys'" for t mk sys'
  proof (cases "phase (strat sys) = 1")
    case True
    with ok that(1,2) have pend: "feval_pending (strat sys) = 0"
      by (simp add: phase_ok_def)
    from that(5) obtain a where "propose_action t mk (strat sys) = Inr (a, strat sys')"
      by (auto split: sum.splits)
    from propose_action_phase [OF this] that(1,3,4) pend show ?thesis by blast
  next
    case False
    with ok have "phase (strat sys) = 2" by (simp add: phase_ok_def)
    from mono [OF this that(5)] show ?thesis .
  qed
  have only: "(\<exists>t mk. e = Ask t mk \<and> \<not> stopping t (strat sys)) \<and>
        \<not> asynchronous (strat sys) \<and> batch_queue (strat sys) = [] \<and>
        init_pending (strat sys) = 0 \<and> feval_pending (strat sys) = 0 \<and>
        phase (strat sys) = 1 \<and> phase (strat sys') = 2"
    if "step e sys = Some sys'" "phase (strat sys') \<noteq> phase (strat sys)" for e sys'
  proof -
    from step_phase [OF that(1)] that(2)
    have ch: "phase (strat sys') = 2" "\<exists>t mk. e = Ask t mk \<and> \<not> stopping t (strat sys)"
      "\<not> asynchronous (strat sys)" "batch_queue (strat sys) = []"
      "feval_pending (strat sys) = 0"
      by blast+
    from ch(1) that(2) ok have one: "phase (strat sys) = 1"
      by (auto simp: phase_ok_def)
    with ok ch(3,5) have "init_pending (strat sys) = 0"
      by (simp add: phase_ok_def)
    with ch one show ?thesis by blast
  qed
  from ok have "phase (strat sys) = 1 \<or> phase (strat sys) = 2"
    "asynchronous (strat sys) \<longrightarrow> phase (strat sys) = 1"
    by (simp_all add: phase_ok_def)
  with mono trans only show ?thesis by blast
qed

theorem phase_transition_witness:
  "(let s0 = projr (GlobalStrategy_init 0 4 1 [[1/10], [9/10]] False (Some 2) None);
        sys = the (run [Ask 1 (returns_rows []), Ask 1 (returns_rows []), Accept 1, Accept 2,
                Update 1 Completed (19/20), Update 2 Completed (1/20)] (system_of s0));
        sys' = the (step (Ask 2 (returns_rows [[3/10], [7/10]])) sys)
    in GlobalStrategy_init 0 4 1 [[1/10], [9/10]] False (Some 2) None = Inr s0 \<and>
       run [Ask 1 (returns_rows []), Ask 1 (returns_rows []), Accept 1, Accept 2,
            Update 1 Completed (19/20), Update 2 Completed (1/20)] (system_of s0) = Some sys \<and>
       phase (strat sys) = 1 \<and> \<not> asynchronous (strat sys) \<and> init_pending (strat sys) = 0 \<and>
       batch_queue (strat sys) = [] \<and> \<not> stopping 2 (strat sys) \<and>
       step (Ask 2 (returns_rows [[3/10], [7/10]])) sys = Some sys' \<and>
       phase (strat sys') = 2)"
proof -
  define s0 where "s0 = projr (GlobalStrategy_init 0 4 1 [[1/10], [9/10]] False (Some 2) None)"
  define sys where "sys = the (run [Ask 1 (returns_rows []), Ask 1 (returns_rows []), Accept 1, Accept 2,
                Update 1 Completed (19/20), Update 2 Completed (1/20)] (system_of s0))"
  define sys' where "sys' = the (step (Ask 2 (returns_rows [[3/10], [7/10]])) sys)"
  have i: "GlobalStrategy_init 0 4 1 [[1/10], [9/10]] False (Some 2) None = Inr s0"
    by (simp add: s0_def GlobalStrategy_init_def)
  have r: "run [Ask 1 (returns_rows []), Ask 1 (returns_rows []), Accept 1, Accept 2,
            Update 1 Completed (19/20), Update 2 Completed (1/20)] (system_of s0) = Some sys"
    by (simp add: sys_def s0_def GlobalStrategy_init_def propose_eqs handler_eqs step_eqs)
  have h: "phase (strat sys) = 1" "\<not> asynchronous (strat sys)" "init_pending (strat sys) = 0"
    "batch_queue (strat sys) = []" "\<not> stopping 2 (strat sys)"
    by (simp_all add: sys_def s0_def GlobalStrategy_init_def propose_eqs handler_eqs step_eqs)
  have st: "step (Ask 2 (returns_rows [[3/10], [7/10]])) sys = Some sys'"
    by (simp add: sys'_def sys_def s0_def GlobalStrategy_init_def propose_eqs handler_eqs
        step_eqs Let_def)
  from phase_transition [OF i r] h st have "phase (strat sys') = 2"
    by blast
  with i r h st show ?thesis
    unfolding s0_def sys_def sys'_def Let_def by blast
qed

text \<open>
  C8, as stated. In asynchronous mode, after the only design point has completed, the
  phase is 1 with \<open>init_pending = 0\<close> and an empty queue, and it stays 1 while the next
  \<open>propose_action\<close> issues an adaptive proposal. In synchronous mode the same state is
  reached when the design point completes: the phase is still 1 until \<open>propose_action\<close>
  is called again.
\<close>

theorem phase_counterexample:
  "(run [Ask 1 (returns_rows []), Accept 1, Update 1 Completed 1,
            Ask 2 (returns_rows [[3/10]])]
         (system_of (projr (GlobalStrategy_init 0 4 1 [[1/2]] True None None)))) \<noteq> None \<and>
   phase (strat (the (run [Ask 1 (returns_rows []), Accept 1, Update 1 Completed 1,
            Ask 2 (returns_rows [[3/10]])]
         (system_of (projr (GlobalStrategy_init 0 4 1 [[1/2]] True None None)))))) = 1 \<and>
   init_pending (strat (the (run [Ask 1 (returns_rows []), Accept 1, Update 1 Completed 1,
            Ask 2 (returns_rows [[3/10]])]
         (system_of (projr (GlobalStrategy_init 0 4 1 [[1/2]] True None None)))))) = 0 \<and>
   batch_queue (strat (the (run [Ask 1 (returns_rows []), Accept 1, Update 1 Completed 1,
            Ask 2 (returns_rows [[3/10]])]
         (system_of (projr (GlobalStrategy_init 0 4 1 [[1/2]] True None None)))))) = [] \<and>
   proposed (the (run [Ask 1 (returns_rows []), Accept 1, Update 1 Completed 1,
            Ask 2 (returns_rows [[3/10]])]
         (system_of (projr (GlobalStrategy_init 0 4 1 [[1/2]] True None None))))) = [(2, [3/10], Adaptive)] \<and>
   (run [Ask 1 (returns_rows []), Accept 1, Update 1 Completed 1]
         (system_of (projr (GlobalStrategy_init 0 4 1 [[1/2]] False (Some 1) None)))) \<noteq> None \<and>
   \<not> asynchronous (strat (the (run [Ask 1 (returns_rows []), Accept 1, Update 1 Completed 1]
         (system_of (projr (GlobalStrategy_init 0 4 1 [[1/2]] False (Some 1) None)))))) \<and>
   phase (strat (the (run [Ask 1 (returns_rows []), Accept 1, Update 1 Completed 1]
         (system_of (projr (GlobalStrategy_init 0 4 1 [[1/2]] False (Some 1) None)))))) = 1 \<and>
   init_pending (strat (the (run [Ask 1 (returns_rows []), Accept 1, Update 1 Completed 1]
         (system_of (projr (GlobalStrategy_init 0 4 1 [[1/2]] False (Some 1) None)))))) = 0 \<and>
   batch_queue (strat (the (run [Ask 1 (returns_rows []), Accept 1, Update 1 Completed 1]
         (system_of (projr (GlobalStrategy_init 0 4 1 [[1/2]] False (Some 1) None)))))) = []"
  by (simp add: GlobalStrategy_init_def propose_eqs handler_eqs step_eqs)

end
